theory Spec2Isabelle
  imports Complex_Main
begin

section \<open>Data model of the typing game (src/main.py)\<close>

text \<open>
  The application object \<^verbatim>\<open>TypingGame\<close> is modelled as a record of those attributes that the
  session engine reads or writes. Rendering attributes (cursor, theme, notification) are left
  out: \<^verbatim>\<open>update_display\<close>, \<^verbatim>\<open>cycle_theme\<close> and \<^verbatim>\<open>toggle_cursor\<close> never write a
  modelled attribute. Python's unbounded integers are modelled by \<open>nat\<close> (counters that are
  only reset to 0 or incremented) and \<open>int\<close>. A Python float is modelled by the real number
  it denotes; where the program only stores, compares or bounds the result of float
  arithmetic the exact result stands for the rounded one, and where it truncates a quotient
  to an integer (the final WPM) the divisions round to a double as the program's do.
\<close>

datatype GameState = USER_SETUP | USER_SELECT | MENU | READY | IN_TEST | COMPLETE

text \<open>The three mode strings \<^verbatim>\<open>"30sec"\<close>, \<^verbatim>\<open>"30word"\<close>, \<^verbatim>\<open>"unlimited"\<close>; \<^verbatim>\<open>game_mode\<close> is
  \<^verbatim>\<open>None\<close> or one of them.\<close>

datatype mode = Mode_30sec | Mode_30word | Mode_unlimited

datatype error = IndexError

record user_stats =
  tests_completed :: nat
  total_wpm :: real
  best_wpm :: int
  total_accuracy :: real
  best_accuracy :: real

record game =
  game_state :: GameState
  target_text :: string
  typed_text :: string
  completed :: bool
  start_time :: real
  elapsed_time :: real
  accuracy :: real
  mistakes :: nat
  game_mode :: "mode option"
  current_line_index :: nat
  lines_completed :: nat
  total_chars_typed :: nat
  total_words_typed :: nat
  countdown_remaining :: real
  current_user :: "string option"
  user_data :: "string \<rightharpoonup> user_stats"
  mistake_positions :: "nat set"
  current_streak :: nat
  best_streak :: nat
  live_wpm :: real
  live_accuracy :: real
  current_lines :: "string list"
  current_paragraph :: string
  completed_lines_history :: "(string \<times> string \<times> nat set) list"
  paragraphs :: "string list"

text \<open>
  What a handler reads from outside the object while it runs: the clock (\<^verbatim>\<open>time.time()\<close>, one
  reading per handler run), the index drawn by \<^verbatim>\<open>random.choice\<close>, the value the username
  screen is dismissed with, and the current user and user dictionary as the user-menu screen
  leaves them.
\<close>

record world =
  now :: real
  pick :: nat
  username :: "string option"
  menu_user :: "string option"
  menu_data :: "string \<rightharpoonup> user_stats"

section \<open>Python helpers\<close>

text \<open>\<^verbatim>\<open>str.isspace\<close> on the code points below 256.\<close>

definition py_isspace :: "char \<Rightarrow> bool" where
  "py_isspace c =
     (let n = (of_char c :: nat)
      in (9 \<le> n \<and> n \<le> 13) \<or> (28 \<le> n \<and> n \<le> 32) \<or> n = 133 \<or> n = 160)"

text \<open>\<^verbatim>\<open>str.split()\<close> with no argument: maximal runs of non-whitespace; the second argument is
  the word being read.\<close>

fun py_split_from :: "string \<Rightarrow> string \<Rightarrow> string list" where
  "py_split_from [] w = (if w = [] then [] else [w])"
| "py_split_from (c # cs) w =
     (if py_isspace c then (if w = [] then py_split_from cs [] else w # py_split_from cs [])
      else py_split_from cs (w @ [c]))"

definition py_split :: "string \<Rightarrow> string list" where
  "py_split t = py_split_from t []"

text \<open>\<^verbatim>\<open>" ".join(words)\<close>.\<close>

fun py_join :: "string list \<Rightarrow> string" where
  "py_join [] = []"
| "py_join [w] = w"
| "py_join (w # ws) = w @ CHR '' '' # py_join ws"

text \<open>\<^verbatim>\<open>int(x)\<close> on a float truncates towards zero.\<close>

definition py_int :: "real \<Rightarrow> int" where
  "py_int x = (if 0 \<le> x then \<lfloor>x\<rfloor> else \<lceil>x\<rceil>)"

text \<open>Truthiness of a value that is \<^verbatim>\<open>None\<close> or a string.\<close>

definition truthy :: "string option \<Rightarrow> bool" where
  "truthy u = (case u of None \<Rightarrow> False | Some n \<Rightarrow> n \<noteq> [])"

text \<open>\<^verbatim>\<open>random.choice(xs)\<close> raises IndexError on an empty sequence.\<close>

definition random_choice :: "nat \<Rightarrow> 'a list \<Rightarrow> error + 'a" where
  "random_choice i xs = (if xs = [] then Inl IndexError else Inr (xs ! (i mod length xs)))"

section \<open>Text library: \<^verbatim>\<open>split_into_lines\<close>\<close>

fun split_into_lines_loop ::
  "nat \<Rightarrow> string list \<Rightarrow> string list \<Rightarrow> string list \<Rightarrow> string list \<times> string list" where
  "split_into_lines_loop m [] lines current_line = (lines, current_line)"
| "split_into_lines_loop m (word # words) lines current_line =
     (let current_line' = current_line @ [word]
      in if length current_line' \<ge> m
         then split_into_lines_loop m words (lines @ [py_join current_line']) []
         else split_into_lines_loop m words lines current_line')"

definition split_into_lines :: "string \<Rightarrow> nat \<Rightarrow> string list" where
  "split_into_lines paragraph max_words_per_line =
     (case split_into_lines_loop max_words_per_line (py_split paragraph) [] [] of
        (lines, current_line) \<Rightarrow>
          if current_line \<noteq> [] then lines @ [py_join current_line] else lines)"

section \<open>User profile store\<close>

definition create_user :: "(string \<rightharpoonup> user_stats) \<Rightarrow> string \<Rightarrow> (string \<rightharpoonup> user_stats)" where
  "create_user ud name =
     (if name \<notin> dom ud
      then ud(name \<mapsto> \<lparr>tests_completed = 0, total_wpm = 0, best_wpm = 0,
                        total_accuracy = 0, best_accuracy = 0\<rparr>)
      else ud)"

text \<open>\<^verbatim>\<open>update_user_stats\<close> (lines 815-835). After \<^verbatim>\<open>create_user\<close> the key is present, so the
  lookup cannot raise; the impossible branch returns the state.\<close>

definition update_user_stats :: "game \<Rightarrow> int \<Rightarrow> real \<Rightarrow> game" where
  "update_user_stats s wpm acc =
     (if \<not> truthy (current_user s) then s
      else
        let cu = the (current_user s);
            ud = (if cu \<notin> dom (user_data s) then create_user (user_data s) cu else user_data s)
        in case ud cu of
             None \<Rightarrow> s
           | Some user \<Rightarrow>
               let user1 = user\<lparr>tests_completed := tests_completed user + 1,
                                total_wpm := total_wpm user + of_int wpm,
                                total_accuracy := total_accuracy user + acc\<rparr>;
                   user2 = (if wpm > best_wpm user1 then user1\<lparr>best_wpm := wpm\<rparr> else user1);
                   user3 = (if acc > best_accuracy user2 then user2\<lparr>best_accuracy := acc\<rparr>
                            else user2)
               in s\<lparr>user_data := ud(cu \<mapsto> user3)\<rparr>)"

text \<open>\<^verbatim>\<open>prompt_username\<close> (lines 796-802); the screen's answer is \<open>username w\<close>.\<close>

definition prompt_username :: "game \<Rightarrow> world \<Rightarrow> game" where
  "prompt_username s w =
     (if truthy (username w)
      then s\<lparr>user_data := create_user (user_data s) (the (username w)),
             current_user := username w\<rparr>
      else s)"

section \<open>Double-precision division\<close>

text \<open>
  The final WPM is the truncation of a quotient of quotients, so the rounding of each
  division to a double decides the integer, and the divisions of that block are modelled
  as the program performs them: the exact quotient rounded to the nearest double, ties to
  the even significand. \<open>pow2 k\<close> is \<open>2\<close> to the power \<open>k\<close>; \<open>binade x\<close> is the exponent
  of \<open>x\<close>, held at \<open>-1022\<close> for subnormal numbers; a double with that exponent is a whole
  multiple of \<open>pow2 (binade x - 52)\<close>. The exponent is not bounded above: a quotient beyond
  the largest double is not modelled.
\<close>

definition pow2 :: "int \<Rightarrow> real" where
  "pow2 k = (if 0 \<le> k then 2 ^ nat k else 1 / 2 ^ nat (- k))"

definition binade :: "real \<Rightarrow> int" where
  "binade x = max \<lfloor>log 2 \<bar>x\<bar>\<rfloor> (- 1022)"

definition round_half_even :: "real \<Rightarrow> int" where
  "round_half_even y =
     (let f = \<lfloor>y\<rfloor>; d = y - of_int f
      in if d < 1 / 2 then f else if 1 / 2 < d then f + 1 else if even f then f else f + 1)"

definition to_double :: "real \<Rightarrow> real" where
  "to_double x =
     (if x = 0 then 0
      else let u = pow2 (binade x - 52) in of_int (round_half_even (x / u)) * u)"

text \<open>Python's \<^verbatim>\<open>x / y\<close> on numbers, for a divisor that is not zero.\<close>

definition fdiv :: "real \<Rightarrow> real \<Rightarrow> real" where
  "fdiv x y = to_double (x / y)"

section \<open>Metrics\<close>

text \<open>The WPM block of \<^verbatim>\<open>complete_game\<close> (lines 1800-1811): arguments are \<^verbatim>\<open>game_mode\<close>,
  \<^verbatim>\<open>total_chars_typed\<close> and \<^verbatim>\<open>elapsed_time\<close>.\<close>

definition final_wpm :: "mode option \<Rightarrow> nat \<Rightarrow> real \<Rightarrow> int" where
  "final_wpm gm chars elapsed =
     (case (if gm = Some Mode_30sec then (fdiv (real chars) 5, 0.5)
            else if gm = Some Mode_30word then (30, fdiv elapsed 60)
            else (fdiv (real chars) 5, if elapsed > 0 then fdiv elapsed 60 else 1)) of
        (words, minutes) \<Rightarrow> if minutes > 0 then py_int (fdiv words minutes) else 0)"

text \<open>The accuracy block of \<^verbatim>\<open>complete_game\<close> (lines 1794-1798).\<close>

definition final_accuracy :: "nat \<Rightarrow> nat \<Rightarrow> real" where
  "final_accuracy chars m =
     (if chars > 0 then ((real chars - real m) / real chars) * 100 else 0)"

section \<open>Completion\<close>

definition complete_game :: "game \<Rightarrow> world \<Rightarrow> game" where
  "complete_game s w =
     (let s1 = s\<lparr>completed := True, game_state := COMPLETE\<rparr>;
          s2 = (if typed_text s1 \<noteq> []
                then s1\<lparr>completed_lines_history := completed_lines_history s1 @
                          [(target_text s1, typed_text s1, mistake_positions s1)]\<rparr>
                else s1);
          s3 = (if start_time s2 > 0 then s2\<lparr>elapsed_time := now w - start_time s2\<rparr> else s2);
          s4 = s3\<lparr>accuracy := final_accuracy (total_chars_typed s3) (mistakes s3)\<rparr>;
          wpm = final_wpm (game_mode s4) (total_chars_typed s4) (elapsed_time s4);
          s5 = (if current_user s4 = None then prompt_username s4 w else s4)
      in if truthy (current_user s5) then update_user_stats s5 wpm (accuracy s5) else s5)"

definition check_line_completion :: "game \<Rightarrow> world \<Rightarrow> error + game" where
  "check_line_completion s w =
     (if length (typed_text s) = length (target_text s) then
        let s1 = s\<lparr>completed_lines_history := completed_lines_history s @
                      [(target_text s, typed_text s, mistake_positions s)],
                    lines_completed := lines_completed s + 1\<rparr>;
            words_in_line = length (py_split (target_text s1));
            s2 = s1\<lparr>total_words_typed := total_words_typed s1 + words_in_line\<rparr>
        in if game_mode s2 = Some Mode_30word \<and> total_words_typed s2 \<ge> 30
           then Inr (complete_game s2 w)
           else if int (current_line_index s2) < int (length (current_lines s2)) - 1
           then Inr (s2\<lparr>current_line_index := current_line_index s2 + 1,
                        target_text := current_lines s2 ! (current_line_index s2 + 1),
                        typed_text := [],
                        mistake_positions := {}\<rparr>)
           else if game_mode s2 = Some Mode_30sec
           then (case random_choice (pick w) (paragraphs s2) of
                   Inl e \<Rightarrow> Inl e
                 | Inr p \<Rightarrow>
                     (case split_into_lines p 10 of
                        [] \<Rightarrow> Inl IndexError
                      | l # ls \<Rightarrow>
                          Inr (s2\<lparr>current_paragraph := p,
                                  current_lines := l # ls,
                                  current_line_index := 0,
                                  target_text := l,
                                  typed_text := [],
                                  mistake_positions := {}\<rparr>)))
           else if game_mode s2 = Some Mode_unlimited
           then Inr (complete_game s2 w)
           else Inr s2
      else Inr s)"

section \<open>Input handling\<close>

text \<open>Timer start of \<^verbatim>\<open>handle_character\<close> (lines 1608-1615). The interval callbacks it
  registers are the tick events of the step function below.\<close>

definition start_timer :: "game \<Rightarrow> world \<Rightarrow> game" where
  "start_timer s w =
     (if length (typed_text s) = 0 \<and> start_time s = 0 then s\<lparr>start_time := now w\<rparr> else s)"

text \<open>Appending the character and tracking mistake and streak (lines 1632-1647).\<close>

definition type_char :: "game \<Rightarrow> char \<Rightarrow> game" where
  "type_char s ch =
     (let s1 = s\<lparr>typed_text := typed_text s @ [ch],
                 total_chars_typed := total_chars_typed s + 1\<rparr>;
          current_pos = length (typed_text s1) - 1
      in if current_pos < length (target_text s1) \<and>
            typed_text s1 ! current_pos \<noteq> target_text s1 ! current_pos
         then (let s2 = (if current_pos \<notin> mistake_positions s1
                         then s1\<lparr>mistake_positions := insert current_pos (mistake_positions s1),
                                 mistakes := mistakes s1 + 1\<rparr>
                         else s1)
               in s2\<lparr>current_streak := 0\<rparr>)
         else (let s2 = s1\<lparr>current_streak := current_streak s1 + 1\<rparr>
               in if current_streak s2 > best_streak s2
                  then s2\<lparr>best_streak := current_streak s2\<rparr> else s2))"

text \<open>Elapsed time and live metrics (lines 1649-1659).\<close>

definition update_live_stats :: "game \<Rightarrow> world \<Rightarrow> game" where
  "update_live_stats s w =
     (let s1 = (if start_time s > 0 then s\<lparr>elapsed_time := now w - start_time s\<rparr> else s)
      in if start_time s1 > 0 then
           let elapsed_minutes = elapsed_time s1 / 60;
               s2 = (if elapsed_minutes > 0
                     then s1\<lparr>live_wpm := (real (total_chars_typed s1) / 5) / elapsed_minutes\<rparr>
                     else s1)
           in if total_chars_typed s2 > 0
              then s2\<lparr>live_accuracy :=
                         ((real (total_chars_typed s2) - real (mistakes s2)) /
                           real (total_chars_typed s2)) * 100\<rparr>
              else s2
         else s1)"

definition handle_character :: "game \<Rightarrow> world \<Rightarrow> char \<Rightarrow> error + game" where
  "handle_character s w ch =
     (if ch = CHR '' '' \<and> length (typed_text s) = 0 \<and> length (target_text s) > 0 \<and>
         target_text s ! 0 \<noteq> CHR '' ''
      then Inr s
      else
        let s1 = start_timer s w
        in if ch = CHR '' '' \<and> length (typed_text s1) \<ge> length (target_text s1)
           then check_line_completion s1 w
           else if length (typed_text s1) \<ge> length (target_text s1)
           then check_line_completion s1 w
           else check_line_completion (update_live_stats (type_char s1 ch) w) w)"

section \<open>Timers\<close>

definition update_countdown :: "game \<Rightarrow> world \<Rightarrow> game" where
  "update_countdown s w =
     (if start_time s > 0 \<and> \<not> completed s then
        let elapsed = now w - start_time s;
            s1 = s\<lparr>elapsed_time := elapsed, countdown_remaining := max 0 (30 - elapsed)\<rparr>
        in if countdown_remaining s1 \<le> 0 then complete_game s1 w else s1
      else s)"

definition update_timer :: "game \<Rightarrow> world \<Rightarrow> game" where
  "update_timer s w =
     (if start_time s > 0 \<and> \<not> completed s then s\<lparr>elapsed_time := now w - start_time s\<rparr>
      else s)"

section \<open>Lifecycle transitions\<close>

definition start_mode :: "game \<Rightarrow> world \<Rightarrow> mode \<Rightarrow> error + game" where
  "start_mode s w m =
     (case random_choice (pick w) (paragraphs s) of
        Inl e \<Rightarrow> Inl e
      | Inr p \<Rightarrow>
          (case split_into_lines p 10 of
             [] \<Rightarrow> Inl IndexError
           | l # ls \<Rightarrow>
               Inr (s\<lparr>game_state := MENU, game_mode := Some m, current_paragraph := p,
                      current_lines := l # ls, current_line_index := 0, target_text := l,
                      typed_text := [], completed := False, start_time := 0,
                      elapsed_time := 0, accuracy := 0, mistakes := 0,
                      mistake_positions := {}, lines_completed := 0, total_chars_typed := 0,
                      total_words_typed := 0, countdown_remaining := 30,
                      completed_lines_history := [], current_streak := 0, best_streak := 0,
                      live_wpm := 0, live_accuracy := 0\<rparr>)))"

definition ready_up :: "game \<Rightarrow> game" where
  "ready_up s = s\<lparr>game_state := READY\<rparr>"

definition cancel_ready :: "game \<Rightarrow> game" where
  "cancel_ready s = s\<lparr>game_state := MENU, typed_text := [], start_time := 0, elapsed_time := 0\<rparr>"

definition cancel_test :: "game \<Rightarrow> game" where
  "cancel_test s = s\<lparr>game_state := MENU, typed_text := [], start_time := 0, elapsed_time := 0\<rparr>"

definition return_to_menu :: "game \<Rightarrow> game" where
  "return_to_menu s =
     s\<lparr>game_state := MENU, game_mode := None, typed_text := [], completed := False,
       start_time := 0, elapsed_time := 0, accuracy := 0, mistakes := 0,
       mistake_positions := {}, current_line_index := 0, lines_completed := 0,
       total_chars_typed := 0, total_words_typed := 0, countdown_remaining := 30,
       current_lines := [], current_paragraph := [], completed_lines_history := [],
       current_streak := 0, best_streak := 0, live_wpm := 0, live_accuracy := 0\<rparr>"

definition restart :: "game \<Rightarrow> error + game" where
  "restart s =
     (if game_mode s \<noteq> None then
        (case split_into_lines (current_paragraph s) 10 of
           [] \<Rightarrow> Inl IndexError
         | l # ls \<Rightarrow>
             Inr (s\<lparr>game_state := READY, current_lines := l # ls, current_line_index := 0,
                    target_text := l, typed_text := [], completed := False, start_time := 0,
                    elapsed_time := 0, accuracy := 0, mistakes := 0, mistake_positions := {},
                    lines_completed := 0, total_chars_typed := 0, total_words_typed := 0,
                    countdown_remaining := 30, completed_lines_history := [],
                    current_streak := 0, best_streak := 0, live_wpm := 0,
                    live_accuracy := 0\<rparr>))
      else Inr s)"

definition new_paragraph :: "game \<Rightarrow> world \<Rightarrow> error + game" where
  "new_paragraph s w = (case game_mode s of None \<Rightarrow> Inr s | Some m \<Rightarrow> start_mode s w m)"

text \<open>\<^verbatim>\<open>show_user_menu\<close> (lines 1677-1683): the menu screen edits the user dictionary in place
  and is dismissed with the user it selected.\<close>

definition show_user_menu :: "game \<Rightarrow> world \<Rightarrow> game" where
  "show_user_menu s w = s\<lparr>current_user := menu_user w, user_data := menu_data w\<rparr>"

section \<open>Key dispatch: \<^verbatim>\<open>on_key\<close>\<close>

definition char_map :: "(string \<times> char) list" where
  "char_map =
     [(''period'', CHR ''.''), (''full_stop'', CHR ''.''), (''comma'', CHR '',''),
      (''exclamation_mark'', CHR ''!''), (''question_mark'', CHR ''?''),
      (''colon'', CHR '':''), (''semicolon'', CHR '';''), (''apostrophe'', CHR 0x27),
      (''quotation_mark'', CHR 0x22), (''hyphen'', CHR ''-''), (''minus'', CHR ''-''),
      (''underscore'', CHR ''_''), (''slash'', CHR ''/''), (''backslash'', CHR 0x5C),
      (''left_parenthesis'', CHR ''(''), (''right_parenthesis'', CHR '')''),
      (''left_square_bracket'', CHR ''[''), (''right_square_bracket'', CHR '']''),
      (''at'', CHR ''@''), (''number_sign'', CHR ''#''), (''dollar_sign'', CHR ''$''),
      (''percent_sign'', CHR ''%''), (''ampersand'', CHR ''&''), (''asterisk'', CHR ''*''),
      (''plus'', CHR ''+''), (''equals'', CHR ''='')]"

text \<open>The character a key types: \<^verbatim>\<open>"space"\<close>, a name of \<^verbatim>\<open>char_map\<close>, or a key of length 1.\<close>

definition key_char :: "string \<Rightarrow> char option" where
  "key_char key =
     (if key = ''space'' then Some (CHR '' '')
      else case map_of char_map key of
             Some c \<Rightarrow> Some c
           | None \<Rightarrow> if length key = 1 then Some (hd key) else None)"

text \<open>MENU block (lines 1377-1424). \<^verbatim>\<open>tab\<close>, \<^verbatim>\<open>s\<close> and \<^verbatim>\<open>escape\<close> (theme, statistics
  screen, leaving the application) write no modelled attribute.\<close>

definition on_key_menu :: "game \<Rightarrow> world \<Rightarrow> string \<Rightarrow> error + game" where
  "on_key_menu s w key =
     (if key = ''1'' then start_mode s w Mode_30sec
      else if key = ''2'' then start_mode s w Mode_30word
      else if key = ''3'' then start_mode s w Mode_unlimited
      else if key = ''tab'' then Inr s
      else if key = ''u'' then Inr (show_user_menu s w)
      else if key = ''s'' then Inr s
      else if key = ''enter'' \<and> game_mode s \<noteq> None then Inr (ready_up s)
      else Inr s)"

text \<open>READY block (lines 1427-1491).\<close>

definition on_key_ready :: "game \<Rightarrow> world \<Rightarrow> string \<Rightarrow> error + game" where
  "on_key_ready s w key =
     (if key = ''enter'' then Inr (cancel_ready s)
      else if key = ''tab'' then Inr s
      else case key_char key of
             Some c \<Rightarrow> handle_character (s\<lparr>game_state := IN_TEST\<rparr>) w c
           | None \<Rightarrow> Inr s)"

text \<open>IN\_TEST block (lines 1494-1556).\<close>

definition on_key_in_test :: "game \<Rightarrow> world \<Rightarrow> string \<Rightarrow> error + game" where
  "on_key_in_test s w key =
     (if key = ''escape'' then Inr (cancel_test s)
      else if key = ''backspace''
      then Inr (if typed_text s \<noteq> [] then s\<lparr>typed_text := butlast (typed_text s)\<rparr> else s)
      else case key_char key of
             Some c \<Rightarrow> handle_character s w c
           | None \<Rightarrow> Inr s)"

text \<open>COMPLETE block (lines 1559-1596).\<close>

definition on_key_complete :: "game \<Rightarrow> world \<Rightarrow> string \<Rightarrow> error + game" where
  "on_key_complete s w key =
     (if key = ''n'' then new_paragraph s w
      else if key = ''r'' then restart s
      else if key = ''tab'' then Inr s
      else if key = ''m'' \<or> key = ''escape'' then Inr (return_to_menu s)
      else if key = ''u'' then Inr (show_user_menu s w)
      else Inr s)"

definition on_key :: "game \<Rightarrow> world \<Rightarrow> string \<Rightarrow> error + game" where
  "on_key s w key =
     (if game_state s = MENU then on_key_menu s w key
      else if game_state s = READY then on_key_ready s w key
      else if game_state s = IN_TEST then on_key_in_test s w key
      else if game_state s = COMPLETE then on_key_complete s w key
      else Inr s)"

section \<open>Start-up\<close>

text \<open>\<^verbatim>\<open>startup_flow\<close> (lines 718-731) up to the point where it waits for a dialog: with no
  users it enters \<^verbatim>\<open>USER_SETUP\<close>, with users but no current user \<^verbatim>\<open>USER_SELECT\<close>, and
  otherwise the menu.\<close>

definition startup_flow :: "game \<Rightarrow> game" where
  "startup_flow s =
     (if dom (user_data s) = {} then s\<lparr>game_state := USER_SETUP\<rparr>
      else if current_user s = None then s\<lparr>game_state := USER_SELECT\<rparr>
      else s\<lparr>game_state := MENU\<rparr>)"

text \<open>The continuation of \<^verbatim>\<open>force_create_first_user\<close> (lines 769-777) and of
  \<^verbatim>\<open>force_user_selection\<close> (lines 787-794) once the dialog is dismissed: a name enters the
  menu, no name shows the dialog again.\<close>

definition dialog_answer :: "game \<Rightarrow> world \<Rightarrow> game" where
  "dialog_answer s w =
     (if game_state s = USER_SETUP then
        (if truthy (username w)
         then s\<lparr>user_data := create_user (user_data s) (the (username w)),
                current_user := username w, game_state := MENU\<rparr>
         else s)
      else if game_state s = USER_SELECT then
        (let s1 = s\<lparr>user_data := menu_data w\<rparr>
         in if truthy (menu_user w) then s1\<lparr>current_user := menu_user w, game_state := MENU\<rparr>
            else s1)
      else s)"

section \<open>The session as a state machine\<close>

text \<open>
  Events are the start-up flow and the answer to its dialog, key presses, and the two
  interval callbacks. A callback registered by an earlier test is never removed, so either
  tick may arrive in any state; the callbacks themselves check \<^verbatim>\<open>start_time\<close> and
  \<^verbatim>\<open>completed\<close>. The application runs the start-up flow once, when it is mounted; the
  step function accepts it in any state, which can only add reachable states. Each handler
  runs to its end before the next event is handled.
\<close>

datatype event = Startup | Dialog_answer | Key string | Countdown_tick | Timer_tick

definition step :: "game \<Rightarrow> world \<Rightarrow> event \<Rightarrow> error + game" where
  "step s w ev =
     (case ev of
        Startup \<Rightarrow> Inr (startup_flow s)
      | Dialog_answer \<Rightarrow> Inr (dialog_answer s w)
      | Key k \<Rightarrow> on_key s w k
      | Countdown_tick \<Rightarrow> Inr (update_countdown s w)
      | Timer_tick \<Rightarrow> Inr (update_timer s w))"

text \<open>Running a list of events stops at the first exception.\<close>

fun run :: "game \<Rightarrow> (world \<times> event) list \<Rightarrow> error + game" where
  "run s [] = Inr s"
| "run s ((w, ev) # evs) = (case step s w ev of Inl e \<Rightarrow> Inl e | Inr s' \<Rightarrow> run s' evs)"

text \<open>The attribute defaults of the class body (lines 600-646), with the texts and the user
  file as loaded by \<^verbatim>\<open>on_mount\<close> before it starts \<^verbatim>\<open>startup_flow\<close>.\<close>

definition init_game :: "string list \<Rightarrow> string option \<Rightarrow> (string \<rightharpoonup> user_stats) \<Rightarrow> game" where
  "init_game ps cu ud =
     \<lparr>game_state = MENU, target_text = [], typed_text = [], completed = False,
      start_time = 0, elapsed_time = 0, accuracy = 0, mistakes = 0, game_mode = None,
      current_line_index = 0, lines_completed = 0, total_chars_typed = 0,
      total_words_typed = 0, countdown_remaining = 30, current_user = cu, user_data = ud,
      mistake_positions = {}, current_streak = 0, best_streak = 0, live_wpm = 0,
      live_accuracy = 0, current_lines = [], current_paragraph = [],
      completed_lines_history = [], paragraphs = ps\<rparr>"

inductive reachable :: "game \<Rightarrow> bool" where
  reachable_init: "reachable (init_game ps cu ud)"
| reachable_step: "reachable s \<Longrightarrow> step s w ev = Inr s' \<Longrightarrow> reachable s'"

section \<open>Reference notions from the specification\<close>

text \<open>The specification's final WPM: \<open>words / minutes\<close> truncated to an integer, and 0 when
  \<open>minutes\<close> is not positive; the division is the program's.\<close>

definition spec_wpm :: "real \<Rightarrow> real \<Rightarrow> int" where
  "spec_wpm words minutes = (if minutes > 0 then py_int (fdiv words minutes) else 0)"

text \<open>The minutes of unlimited mode in the words of claim C5: \<open>elapsed / 60\<close>, with 1
  substituted when the elapsed time is 0.\<close>

definition claimed_unlimited_minutes :: "real \<Rightarrow> real" where
  "claimed_unlimited_minutes elapsed = (if elapsed = 0 then 1 else fdiv elapsed 60)"

text \<open>The aggregate of a user that has completed no test.\<close>

definition new_user_stats :: user_stats where
  "new_user_stats =
     \<lparr>tests_completed = 0, total_wpm = 0, best_wpm = 0, total_accuracy = 0, best_accuracy = 0\<rparr>"

text \<open>The bounds on streaks, counters and metrics that every step keeps.\<close>

definition session_inv :: "game \<Rightarrow> bool" where
  "session_inv s \<longleftrightarrow>
     current_streak s \<le> best_streak s \<and> mistakes s \<le> total_chars_typed s \<and>
     0 \<le> accuracy s \<and> accuracy s \<le> 100 \<and>
     0 \<le> live_accuracy s \<and> live_accuracy s \<le> 100 \<and> 0 \<le> live_wpm s"

text \<open>The events that discard the session and create a fresh one (the specification's
  transition table): selecting a mode in the menu, and retry, new and return-to-menu after
  completion.\<close>

definition starts_new_session :: "game \<Rightarrow> event \<Rightarrow> bool" where
  "starts_new_session s ev =
     (case ev of
        Key k \<Rightarrow>
          (game_state s = MENU \<and> (k = ''1'' \<or> k = ''2'' \<or> k = ''3'')) \<or>
          (game_state s = COMPLETE \<and> (k = ''n'' \<or> k = ''r'' \<or> k = ''m'' \<or> k = ''escape''))
      | _ \<Rightarrow> False)"

text \<open>One typed character marks at most its own offset, and counts a mistake exactly when
  that offset is newly marked.\<close>

definition marks_at_most :: "game \<Rightarrow> game \<Rightarrow> bool" where
  "marks_at_most s s' \<longleftrightarrow>
     (mistake_positions s' = mistake_positions s \<and> mistakes s' = mistakes s) \<or>
     (length (typed_text s) \<notin> mistake_positions s \<and>
      length (typed_text s) < length (target_text s) \<and>
      mistake_positions s' = insert (length (typed_text s)) (mistake_positions s) \<and>
      mistakes s' = mistakes s + 1)"

text \<open>One line instance: a sequence of keys handled in the ready or typing state, none of
  them a cancel, during which no line completes (\<open>lines_completed\<close> stays as it is). The
  result is \<open>None\<close> as soon as a key leaves the line instance.\<close>

fun line_run :: "game \<Rightarrow> (world \<times> string) list \<Rightarrow> game option" where
  "line_run s [] = Some s"
| "line_run s ((w, k) # ks) =
     (if (game_state s = IN_TEST \<and> k \<noteq> ''escape'') \<or> (game_state s = READY \<and> k \<noteq> ''enter'')
      then (case on_key s w k of
              Inl e \<Rightarrow> None
            | Inr s' \<Rightarrow> if lines_completed s' = lines_completed s then line_run s' ks else None)
      else None)"

section \<open>Concrete sessions\<close>

text \<open>A world whose clock reads \<open>t\<close>, whose random draw is the first paragraph, and whose
  dialogs are dismissed without a name.\<close>

definition world_at :: "real \<Rightarrow> world" where
  "world_at t = \<lparr>now = t, pick = 0, username = None, menu_user = None, menu_data = Map.empty\<rparr>"

definition keys_at :: "real \<Rightarrow> string list \<Rightarrow> (world \<times> event) list" where
  "keys_at t ks = map (\<lambda>k. (world_at t, Key k)) ks"

text \<open>Unlimited mode on the one-line paragraph \<^verbatim>\<open>cat sat\<close>: readied; after a first wrong
  key; after a right and a wrong key six seconds apart.\<close>

definition cat_ready :: "error + game" where
  "cat_ready = run (init_game [''cat sat''] None Map.empty) (keys_at 100 [''3'', ''enter''])"

definition cat_typing :: "error + game" where
  "cat_typing =
     run (init_game [''cat sat''] None Map.empty) (keys_at 100 [''3'', ''enter'', ''x''])"

definition cat_typing2 :: "error + game" where
  "cat_typing2 =
     run (init_game [''cat sat''] None Map.empty)
       [(world_at 100, Key ''3''), (world_at 100, Key ''enter''), (world_at 100, Key ''c''),
        (world_at 106, Key ''x'')]"

text \<open>A wrong key at offset 0, backspace, another wrong key, backspace, the right key.\<close>

definition retype_keys :: "(world \<times> string) list" where
  "retype_keys =
     map (\<lambda>k. (world_at 101, k)) [''x'', ''backspace'', ''y'', ''backspace'', ''c'']"

text \<open>A text file whose only paragraph is \<^verbatim>\<open>hi\<close>, in unlimited and in 30-word mode, one key
  before the end of the line.\<close>

definition hi_unlimited :: "error + game" where
  "hi_unlimited = run (init_game [''hi''] None Map.empty) (keys_at 100 [''3'', ''enter'', ''h''])"

definition hi_wordsprint :: "error + game" where
  "hi_wordsprint = run (init_game [''hi''] None Map.empty) (keys_at 100 [''2'', ''enter'', ''h''])"

text \<open>A state with a current user who has no aggregate yet, and an unlimited test of that
  user, with an aggregate, after 250 characters.\<close>

definition ann_session :: game where
  "ann_session = init_game [''cat sat''] (Some ''ann'') Map.empty"

definition ann_test :: game where
  "ann_test =
     (init_game [''cat sat''] (Some ''ann'') [''ann'' \<mapsto> new_user_stats])
       \<lparr>game_state := IN_TEST, game_mode := Some Mode_unlimited, start_time := 100,
        total_chars_typed := 250\<rparr>"

text \<open>An unlimited test of a user with an aggregate over the one-line paragraph \<^verbatim>\<open>hello\<close>,
  typed correctly, during which the wall clock is set back: the first key is handled at
  clock reading 100, the last at 70.\<close>

definition hello_clock_back :: "error + game" where
  "hello_clock_back =
     run (init_game [''hello''] (Some ''ann'') [''ann'' \<mapsto> new_user_stats])
       [(world_at 100, Key ''3''), (world_at 100, Key ''enter''), (world_at 100, Key ''h''),
        (world_at 100, Key ''e''), (world_at 100, Key ''l''), (world_at 100, Key ''l''),
        (world_at 70, Key ''o'')]"

section \<open>Evaluation of concrete sessions\<close>

lemmas session_defs =
  step_def on_key_def on_key_menu_def on_key_ready_def on_key_in_test_def on_key_complete_def
  init_game_def start_mode_def random_choice_def split_into_lines_def py_split_def
  py_isspace_def ready_up_def key_char_def char_map_def handle_character_def start_timer_def
  type_char_def update_live_stats_def check_line_completion_def complete_game_def
  world_at_def keys_at_def Let_def final_accuracy_def final_wpm_def prompt_username_def
  truthy_def update_user_stats_def create_user_def py_int_def cancel_test_def

lemma cat_typing2_eval:
  "\<not> isl cat_typing2 \<and> game_state (projr cat_typing2) = IN_TEST \<and>
   typed_text (projr cat_typing2) = ''cx'' \<and> total_chars_typed (projr cat_typing2) = 2 \<and>
   mistakes (projr cat_typing2) = 1 \<and> current_streak (projr cat_typing2) = 0 \<and>
   best_streak (projr cat_typing2) = 1 \<and> live_accuracy (projr cat_typing2) = 50 \<and>
   live_wpm (projr cat_typing2) = 4 \<and> accuracy (projr cat_typing2) = 0 \<and>
   game_mode (projr cat_typing2) = Some Mode_unlimited"
  by (simp add: cat_typing2_def session_defs)

lemma cat_typing2_next:
  "\<not> isl (step (projr cat_typing2) (world_at 107) (Key ''t'')) \<and>
   best_streak (projr (step (projr cat_typing2) (world_at 107) (Key ''t''))) = 1 \<and>
   current_streak (projr (step (projr cat_typing2) (world_at 107) (Key ''t''))) = 1"
  by (simp add: cat_typing2_def session_defs)

lemma retype_eval:
  "\<not> isl cat_ready \<and> line_run (projr cat_ready) retype_keys \<noteq> None \<and>
   typed_text (the (line_run (projr cat_ready) retype_keys)) = ''c'' \<and>
   mistake_positions (projr cat_ready) = {} \<and> mistakes (projr cat_ready) = 0 \<and>
   mistake_positions (the (line_run (projr cat_ready) retype_keys)) = {0} \<and>
   mistakes (the (line_run (projr cat_ready) retype_keys)) = 1 \<and>
   total_chars_typed (the (line_run (projr cat_ready) retype_keys)) = 3"
  by (simp add: cat_ready_def retype_keys_def session_defs)

section \<open>Frame lemmas\<close>

lemma update_user_stats_frame:
  "update_user_stats s wpm acc = s\<lparr>user_data := user_data (update_user_stats s wpm acc)\<rparr>"
  by (simp add: update_user_stats_def Let_def split: option.split)

lemma prompt_username_frame:
  "prompt_username s w = s\<lparr>user_data := user_data (prompt_username s w),
      current_user := current_user (prompt_username s w)\<rparr>"
  by (simp add: prompt_username_def)

text \<open>Every attribute but the user dictionary and the current user goes through the two
  user-store operations unchanged.\<close>

lemma update_user_stats_fields:
  "game_state (update_user_stats s wpm acc) = game_state s"
  "target_text (update_user_stats s wpm acc) = target_text s"
  "typed_text (update_user_stats s wpm acc) = typed_text s"
  "completed (update_user_stats s wpm acc) = completed s"
  "start_time (update_user_stats s wpm acc) = start_time s"
  "elapsed_time (update_user_stats s wpm acc) = elapsed_time s"
  "accuracy (update_user_stats s wpm acc) = accuracy s"
  "mistakes (update_user_stats s wpm acc) = mistakes s"
  "game_mode (update_user_stats s wpm acc) = game_mode s"
  "current_line_index (update_user_stats s wpm acc) = current_line_index s"
  "lines_completed (update_user_stats s wpm acc) = lines_completed s"
  "total_chars_typed (update_user_stats s wpm acc) = total_chars_typed s"
  "total_words_typed (update_user_stats s wpm acc) = total_words_typed s"
  "countdown_remaining (update_user_stats s wpm acc) = countdown_remaining s"
  "current_user (update_user_stats s wpm acc) = current_user s"
  "mistake_positions (update_user_stats s wpm acc) = mistake_positions s"
  "current_streak (update_user_stats s wpm acc) = current_streak s"
  "best_streak (update_user_stats s wpm acc) = best_streak s"
  "live_wpm (update_user_stats s wpm acc) = live_wpm s"
  "live_accuracy (update_user_stats s wpm acc) = live_accuracy s"
  "current_lines (update_user_stats s wpm acc) = current_lines s"
  "current_paragraph (update_user_stats s wpm acc) = current_paragraph s"
  "completed_lines_history (update_user_stats s wpm acc) = completed_lines_history s"
  "paragraphs (update_user_stats s wpm acc) = paragraphs s"
  by (subst update_user_stats_frame, simp)+

lemma prompt_username_fields:
  "game_state (prompt_username s w) = game_state s"
  "target_text (prompt_username s w) = target_text s"
  "typed_text (prompt_username s w) = typed_text s"
  "completed (prompt_username s w) = completed s"
  "start_time (prompt_username s w) = start_time s"
  "elapsed_time (prompt_username s w) = elapsed_time s"
  "accuracy (prompt_username s w) = accuracy s"
  "mistakes (prompt_username s w) = mistakes s"
  "game_mode (prompt_username s w) = game_mode s"
  "current_line_index (prompt_username s w) = current_line_index s"
  "lines_completed (prompt_username s w) = lines_completed s"
  "total_chars_typed (prompt_username s w) = total_chars_typed s"
  "total_words_typed (prompt_username s w) = total_words_typed s"
  "countdown_remaining (prompt_username s w) = countdown_remaining s"
  "mistake_positions (prompt_username s w) = mistake_positions s"
  "current_streak (prompt_username s w) = current_streak s"
  "best_streak (prompt_username s w) = best_streak s"
  "live_wpm (prompt_username s w) = live_wpm s"
  "live_accuracy (prompt_username s w) = live_accuracy s"
  "current_lines (prompt_username s w) = current_lines s"
  "current_paragraph (prompt_username s w) = current_paragraph s"
  "completed_lines_history (prompt_username s w) = completed_lines_history s"
  "paragraphs (prompt_username s w) = paragraphs s"
  by (simp_all add: prompt_username_def)

lemma complete_game_fields:
  "completed (complete_game s w) = True"
  "game_state (complete_game s w) = COMPLETE"
  "completed_lines_history (complete_game s w) =
     (if typed_text s \<noteq> []
      then completed_lines_history s @ [(target_text s, typed_text s, mistake_positions s)]
      else completed_lines_history s)"
  "elapsed_time (complete_game s w) = (if start_time s > 0 then now w - start_time s else elapsed_time s)"
  "accuracy (complete_game s w) = final_accuracy (total_chars_typed s) (mistakes s)"
  "target_text (complete_game s w) = target_text s"
  "typed_text (complete_game s w) = typed_text s"
  "start_time (complete_game s w) = start_time s"
  "mistakes (complete_game s w) = mistakes s"
  "game_mode (complete_game s w) = game_mode s"
  "current_line_index (complete_game s w) = current_line_index s"
  "lines_completed (complete_game s w) = lines_completed s"
  "total_chars_typed (complete_game s w) = total_chars_typed s"
  "total_words_typed (complete_game s w) = total_words_typed s"
  "countdown_remaining (complete_game s w) = countdown_remaining s"
  "mistake_positions (complete_game s w) = mistake_positions s"
  "current_streak (complete_game s w) = current_streak s"
  "best_streak (complete_game s w) = best_streak s"
  "live_wpm (complete_game s w) = live_wpm s"
  "live_accuracy (complete_game s w) = live_accuracy s"
  "current_lines (complete_game s w) = current_lines s"
  "current_paragraph (complete_game s w) = current_paragraph s"
  "paragraphs (complete_game s w) = paragraphs s"
  by (simp_all add: complete_game_def Let_def update_user_stats_fields prompt_username_fields)

section \<open>Invariant preservation\<close>

lemma final_accuracy_bounds:
  "m \<le> c \<Longrightarrow> 0 \<le> final_accuracy c m \<and> final_accuracy c m \<le> 100"
  by (simp add: final_accuracy_def field_simps)

lemma py_int_nonneg: "0 \<le> x \<Longrightarrow> 0 \<le> py_int x"
  by (simp add: py_int_def)

lemma pow2_pos: "0 < pow2 k"
  by (simp add: pow2_def)

lemma round_half_even_nonneg: "0 \<le> y \<Longrightarrow> 0 \<le> round_half_even y"
  by (simp add: round_half_even_def Let_def)

lemma to_double_nonneg: "0 \<le> x \<Longrightarrow> 0 \<le> to_double x"
  using pow2_pos [of "binade x - 52"]
  by (simp add: to_double_def Let_def round_half_even_nonneg)

lemma fdiv_nonneg: "0 \<le> x \<Longrightarrow> 0 \<le> y \<Longrightarrow> 0 \<le> fdiv x y"
  by (simp add: fdiv_def to_double_nonneg)

lemma final_wpm_nonneg: "0 \<le> final_wpm gm c e"
  by (simp add: final_wpm_def py_int_nonneg fdiv_nonneg)

lemma start_timer_inv: "session_inv s \<Longrightarrow> session_inv (start_timer s w)"
  by (simp add: session_inv_def start_timer_def)

lemma start_timer_best: "best_streak (start_timer s w) = best_streak s"
  by (simp add: start_timer_def)

lemma type_char_inv: "session_inv s \<Longrightarrow> session_inv (type_char s ch)"
  by (simp add: session_inv_def type_char_def Let_def)

lemma type_char_best: "best_streak s \<le> best_streak (type_char s ch)"
  by (simp add: type_char_def Let_def)

lemma update_live_stats_inv: "session_inv s \<Longrightarrow> session_inv (update_live_stats s w)"
  by (simp add: session_inv_def update_live_stats_def Let_def field_simps)

lemma update_live_stats_best: "best_streak (update_live_stats s w) = best_streak s"
  by (simp add: update_live_stats_def Let_def)

lemma complete_game_inv: "session_inv s \<Longrightarrow> session_inv (complete_game s w)"
  by (simp add: session_inv_def complete_game_fields final_accuracy_bounds)

lemma check_line_completion_inv:
  "session_inv s \<Longrightarrow> check_line_completion s w = Inr s' \<Longrightarrow> session_inv s'"
  by (auto simp: check_line_completion_def Let_def session_inv_def complete_game_fields
      final_accuracy_bounds split: if_splits sum.splits list.splits)

lemma check_line_completion_best:
  "check_line_completion s w = Inr s' \<Longrightarrow> best_streak s' = best_streak s"
  by (auto simp: check_line_completion_def Let_def complete_game_fields
      split: if_splits sum.splits list.splits)

lemma handle_character_cases:
  "handle_character s w ch = Inr s' \<Longrightarrow>
     s' = s \<or> check_line_completion (start_timer s w) w = Inr s' \<or>
     check_line_completion (update_live_stats (type_char (start_timer s w) ch) w) w = Inr s'"
  by (auto simp: handle_character_def Let_def split: if_splits)

lemma handle_character_inv:
  assumes "session_inv s" and "handle_character s w ch = Inr s'"
  shows "session_inv s'"
proof -
  have a: "session_inv (start_timer s w)"
    using assms(1) by (rule start_timer_inv)
  then have b: "session_inv (update_live_stats (type_char (start_timer s w) ch) w)"
    by (intro update_live_stats_inv type_char_inv)
  from handle_character_cases [OF assms(2)] assms(1) a b show ?thesis
    by (auto dest: check_line_completion_inv)
qed

lemma handle_character_best:
  assumes "handle_character s w ch = Inr s'"
  shows "best_streak s \<le> best_streak s'"
proof -
  have a: "best_streak s \<le> best_streak (update_live_stats (type_char (start_timer s w) ch) w)"
    using type_char_best [of "start_timer s w" ch]
    by (simp add: update_live_stats_best start_timer_best)
  from handle_character_cases [OF assms] a show ?thesis
    by (auto simp: start_timer_best dest!: check_line_completion_best)
qed

lemma update_countdown_inv: "session_inv s \<Longrightarrow> session_inv (update_countdown s w)"
proof -
  assume s: "session_inv s"
  have "session_inv (s\<lparr>elapsed_time := e, countdown_remaining := c\<rparr>)" for e c
    using s by (simp add: session_inv_def)
  then show ?thesis
    using s by (simp add: update_countdown_def Let_def complete_game_inv)
qed

lemma update_countdown_best: "best_streak (update_countdown s w) = best_streak s"
  by (simp add: update_countdown_def Let_def complete_game_fields)

lemma update_timer_inv: "session_inv s \<Longrightarrow> session_inv (update_timer s w)"
  by (simp add: update_timer_def session_inv_def)

lemma update_timer_best: "best_streak (update_timer s w) = best_streak s"
  by (simp add: update_timer_def)

lemma start_mode_inv: "start_mode s w m = Inr s' \<Longrightarrow> session_inv s'"
  by (auto simp: start_mode_def session_inv_def split: sum.splits list.splits)

lemma restart_inv: "session_inv s \<Longrightarrow> restart s = Inr s' \<Longrightarrow> session_inv s'"
  by (auto simp: restart_def session_inv_def split: if_splits list.splits)

lemma return_to_menu_inv: "session_inv (return_to_menu s)"
  by (simp add: return_to_menu_def session_inv_def)

lemma new_paragraph_inv: "session_inv s \<Longrightarrow> new_paragraph s w = Inr s' \<Longrightarrow> session_inv s'"
  by (auto simp: new_paragraph_def split: option.splits dest: start_mode_inv)

lemma on_key_menu_inv: "session_inv s \<Longrightarrow> on_key_menu s w k = Inr s' \<Longrightarrow> session_inv s'"
  by (auto simp: on_key_menu_def ready_up_def show_user_menu_def session_inv_def
      split: if_splits dest!: start_mode_inv)

lemma on_key_menu_best:
  "on_key_menu s w k = Inr s' \<Longrightarrow> k \<noteq> ''1'' \<Longrightarrow> k \<noteq> ''2'' \<Longrightarrow> k \<noteq> ''3'' \<Longrightarrow>
     best_streak s' = best_streak s"
  by (auto simp: on_key_menu_def ready_up_def show_user_menu_def split: if_splits)

lemma on_key_ready_inv: "session_inv s \<Longrightarrow> on_key_ready s w k = Inr s' \<Longrightarrow> session_inv s'"
proof -
  assume s: "session_inv s" and k: "on_key_ready s w k = Inr s'"
  have a: "session_inv (cancel_ready s)" "session_inv (s\<lparr>game_state := IN_TEST\<rparr>)"
    using s by (simp_all add: session_inv_def cancel_ready_def)
  from k s a show ?thesis
    by (auto simp: on_key_ready_def split: if_splits option.splits dest: handle_character_inv)
qed

lemma on_key_ready_best: "on_key_ready s w k = Inr s' \<Longrightarrow> best_streak s \<le> best_streak s'"
  by (auto simp: on_key_ready_def cancel_ready_def split: if_splits option.splits
      dest!: handle_character_best)

lemma on_key_in_test_inv: "session_inv s \<Longrightarrow> on_key_in_test s w k = Inr s' \<Longrightarrow> session_inv s'"
proof -
  assume s: "session_inv s" and k: "on_key_in_test s w k = Inr s'"
  have a: "session_inv (cancel_test s)" "session_inv (s\<lparr>typed_text := butlast (typed_text s)\<rparr>)"
    using s by (simp_all add: session_inv_def cancel_test_def)
  from k s a show ?thesis
    by (auto simp: on_key_in_test_def split: if_splits option.splits dest: handle_character_inv)
qed

lemma on_key_in_test_best: "on_key_in_test s w k = Inr s' \<Longrightarrow> best_streak s \<le> best_streak s'"
  by (auto simp: on_key_in_test_def cancel_test_def split: if_splits option.splits
      dest!: handle_character_best)

lemma on_key_complete_inv:
  "session_inv s \<Longrightarrow> on_key_complete s w k = Inr s' \<Longrightarrow> session_inv s'"
proof -
  assume s: "session_inv s" and k: "on_key_complete s w k = Inr s'"
  have a: "session_inv (show_user_menu s w)"
    using s by (simp add: session_inv_def show_user_menu_def)
  from k s a show ?thesis
    by (auto simp: on_key_complete_def return_to_menu_inv split: if_splits
        dest: new_paragraph_inv restart_inv)
qed

lemma on_key_complete_best:
  "on_key_complete s w k = Inr s' \<Longrightarrow> k \<noteq> ''n'' \<Longrightarrow> k \<noteq> ''r'' \<Longrightarrow> k \<noteq> ''m'' \<Longrightarrow>
     k \<noteq> ''escape'' \<Longrightarrow> best_streak s' = best_streak s"
  by (auto simp: on_key_complete_def show_user_menu_def split: if_splits)

lemma startup_flow_inv: "session_inv s \<Longrightarrow> session_inv (startup_flow s)"
  by (simp add: startup_flow_def session_inv_def)

lemma startup_flow_best: "best_streak (startup_flow s) = best_streak s"
  by (simp add: startup_flow_def)

lemma dialog_answer_inv: "session_inv s \<Longrightarrow> session_inv (dialog_answer s w)"
  by (simp add: dialog_answer_def session_inv_def Let_def)

lemma dialog_answer_best: "best_streak (dialog_answer s w) = best_streak s"
  by (simp add: dialog_answer_def Let_def)

lemma step_inv: "session_inv s \<Longrightarrow> step s w ev = Inr s' \<Longrightarrow> session_inv s'"
  by (cases ev)
    (auto simp: step_def on_key_def update_countdown_inv update_timer_inv startup_flow_inv
      dialog_answer_inv split: if_splits
      dest: on_key_menu_inv on_key_ready_inv on_key_in_test_inv on_key_complete_inv)

lemma step_best_streak:
  "step s w ev = Inr s' \<Longrightarrow> \<not> starts_new_session s ev \<Longrightarrow> best_streak s \<le> best_streak s'"
  by (cases ev)
    (auto simp: step_def on_key_def starts_new_session_def update_countdown_best
      update_timer_best startup_flow_best dialog_answer_best split: if_splits
      dest: on_key_menu_best on_key_ready_best on_key_in_test_best on_key_complete_best)

lemma init_game_inv: "session_inv (init_game ps cu ud)"
  by (simp add: init_game_def session_inv_def)

lemma reachable_inv: "reachable s \<Longrightarrow> session_inv s"
  by (induction rule: reachable.induct) (auto intro: init_game_inv step_inv)

lemma reachable_run: "reachable s \<Longrightarrow> run s evs = Inr s' \<Longrightarrow> reachable s'"
proof (induction evs arbitrary: s)
  case Nil
  then show ?case by simp
next
  case (Cons a evs)
  obtain w ev where a: "a = (w, ev)" by (cases a)
  with Cons.prems(2) obtain t where t: "step s w ev = Inr t" "run t evs = Inr s'"
    by (auto split: sum.splits)
  from Cons.prems(1) t(1) have "reachable t" by (rule reachable_step)
  then show ?case using t(2) by (rule Cons.IH)
qed

section \<open>Typing within one line\<close>

lemma check_line_completion_lines_completed:
  "check_line_completion s w = Inr s' \<Longrightarrow>
     (s' = s \<and> length (typed_text s) \<noteq> length (target_text s)) \<or>
     (lines_completed s' = lines_completed s + 1 \<and> length (typed_text s) = length (target_text s))"
  by (auto simp: check_line_completion_def Let_def complete_game_fields
      split: if_splits sum.splits list.splits)

lemma check_line_completion_same_line:
  "check_line_completion s w = Inr s' \<Longrightarrow> lines_completed s' = lines_completed s \<Longrightarrow> s' = s"
  by (drule check_line_completion_lines_completed) auto

lemma start_timer_fields:
  "lines_completed (start_timer s w) = lines_completed s"
  "mistakes (start_timer s w) = mistakes s"
  "mistake_positions (start_timer s w) = mistake_positions s"
  "target_text (start_timer s w) = target_text s"
  "typed_text (start_timer s w) = typed_text s"
  "game_state (start_timer s w) = game_state s"
  by (simp_all add: start_timer_def)

lemma update_live_stats_fields:
  "lines_completed (update_live_stats s w) = lines_completed s"
  "mistakes (update_live_stats s w) = mistakes s"
  "mistake_positions (update_live_stats s w) = mistake_positions s"
  "target_text (update_live_stats s w) = target_text s"
  "typed_text (update_live_stats s w) = typed_text s"
  "game_state (update_live_stats s w) = game_state s"
  by (simp_all add: update_live_stats_def Let_def)

lemma type_char_fields:
  "lines_completed (type_char s ch) = lines_completed s"
  "target_text (type_char s ch) = target_text s"
  "typed_text (type_char s ch) = typed_text s @ [ch]"
  "game_state (type_char s ch) = game_state s"
  by (simp_all add: type_char_def Let_def)

lemma type_char_marks: "marks_at_most s (type_char s ch)"
  by (simp add: marks_at_most_def type_char_def Let_def)

lemma handle_character_same_line:
  assumes "handle_character s w ch = Inr s'" and "lines_completed s' = lines_completed s"
  shows "target_text s' = target_text s \<and> game_state s' = game_state s \<and> marks_at_most s s'"
proof -
  let ?t = "update_live_stats (type_char (start_timer s w) ch) w"
  from handle_character_cases [OF assms(1)]
  consider "s' = s" | "check_line_completion (start_timer s w) w = Inr s'"
    | "check_line_completion ?t w = Inr s'" by blast
  then show ?thesis
  proof cases
    case 1
    then show ?thesis by (simp add: marks_at_most_def)
  next
    case 2
    with assms(2) have "s' = start_timer s w"
      by (intro check_line_completion_same_line) (simp_all add: start_timer_fields)
    then show ?thesis by (simp add: start_timer_fields marks_at_most_def)
  next
    case 3
    with assms(2) have "s' = ?t"
      by (intro check_line_completion_same_line)
        (simp_all add: start_timer_fields update_live_stats_fields type_char_fields)
    moreover have "marks_at_most (start_timer s w) (type_char (start_timer s w) ch)"
      by (rule type_char_marks)
    ultimately show ?thesis
      by (simp add: start_timer_fields update_live_stats_fields type_char_fields
          marks_at_most_def)
  qed
qed

lemma on_key_in_test_cases:
  assumes "on_key_in_test s w k = Inr s'" and "k \<noteq> ''escape''"
  shows "s' = s \<or> s' = s\<lparr>typed_text := butlast (typed_text s)\<rparr> \<or>
     (\<exists>c. handle_character s w c = Inr s')"
proof (cases "k = ''backspace''")
  case True
  with assms have "s' = (if typed_text s \<noteq> [] then s\<lparr>typed_text := butlast (typed_text s)\<rparr> else s)"
    by (simp add: on_key_in_test_def)
  then show ?thesis by (simp split: if_splits)
next
  case False
  show ?thesis
  proof (cases "key_char k")
    case None
    with False assms have "s' = s" by (simp add: on_key_in_test_def)
    then show ?thesis by simp
  next
    case (Some c)
    with False assms have "handle_character s w c = Inr s'" by (simp add: on_key_in_test_def)
    then show ?thesis by blast
  qed
qed

lemma on_key_ready_cases:
  assumes "on_key_ready s w k = Inr s'" and "k \<noteq> ''enter''"
  shows "s' = s \<or> (\<exists>c. handle_character (s\<lparr>game_state := IN_TEST\<rparr>) w c = Inr s')"
proof (cases "k = ''tab''")
  case True
  with assms have "s' = s" by (simp add: on_key_ready_def)
  then show ?thesis by simp
next
  case False
  show ?thesis
  proof (cases "key_char k")
    case None
    with False assms have "s' = s" by (simp add: on_key_ready_def)
    then show ?thesis by simp
  next
    case (Some c)
    with False assms have "handle_character (s\<lparr>game_state := IN_TEST\<rparr>) w c = Inr s'"
      by (simp add: on_key_ready_def)
    then show ?thesis by blast
  qed
qed

lemma on_key_same_line:
  assumes "on_key s w k = Inr s'" and "lines_completed s' = lines_completed s"
    and "(game_state s = IN_TEST \<and> k \<noteq> ''escape'') \<or> (game_state s = READY \<and> k \<noteq> ''enter'')"
  shows "target_text s' = target_text s \<and>
     (mistake_positions s' = mistake_positions s \<and> mistakes s' = mistakes s \<or>
      (\<exists>p. p \<notin> mistake_positions s \<and> p < length (target_text s) \<and>
         mistake_positions s' = insert p (mistake_positions s) \<and> mistakes s' = mistakes s + 1))"
proof -
  from assms(3) show ?thesis
  proof
    assume a: "game_state s = IN_TEST \<and> k \<noteq> ''escape''"
    with assms(1) have "on_key_in_test s w k = Inr s'" by (simp add: on_key_def)
    from on_key_in_test_cases [OF this] a
    consider "s' = s" | "s' = s\<lparr>typed_text := butlast (typed_text s)\<rparr>"
      | c where "handle_character s w c = Inr s'"
      by blast
    then show ?thesis
    proof cases
      case 1
      then show ?thesis by simp
    next
      case 2
      then show ?thesis by simp
    next
      case 3
      from handle_character_same_line [OF 3 assms(2)] show ?thesis
        by (auto simp: marks_at_most_def)
    qed
  next
    assume a: "game_state s = READY \<and> k \<noteq> ''enter''"
    with assms(1) have "on_key_ready s w k = Inr s'" by (simp add: on_key_def)
    from on_key_ready_cases [OF this] a
    consider "s' = s"
      | c where "handle_character (s\<lparr>game_state := IN_TEST\<rparr>) w c = Inr s'"
      by blast
    then show ?thesis
    proof cases
      case 1
      then show ?thesis by simp
    next
      case 2
      from assms(2) have "lines_completed s' = lines_completed (s\<lparr>game_state := IN_TEST\<rparr>)"
        by simp
      from handle_character_same_line [OF 2 this] show ?thesis
        by (auto simp: marks_at_most_def)
    qed
  qed
qed

section \<open>Completing keystrokes\<close>

lemma start_timer_more_fields:
  "game_mode (start_timer s w) = game_mode s"
  "total_words_typed (start_timer s w) = total_words_typed s"
  "current_line_index (start_timer s w) = current_line_index s"
  "current_lines (start_timer s w) = current_lines s"
  "current_paragraph (start_timer s w) = current_paragraph s"
  "completed_lines_history (start_timer s w) = completed_lines_history s"
  by (simp_all add: start_timer_def)

lemma update_live_stats_more_fields:
  "game_mode (update_live_stats s w) = game_mode s"
  "total_words_typed (update_live_stats s w) = total_words_typed s"
  "current_line_index (update_live_stats s w) = current_line_index s"
  "current_lines (update_live_stats s w) = current_lines s"
  "current_paragraph (update_live_stats s w) = current_paragraph s"
  "completed_lines_history (update_live_stats s w) = completed_lines_history s"
  by (simp_all add: update_live_stats_def Let_def)

lemma type_char_more_fields:
  "game_mode (type_char s ch) = game_mode s"
  "total_words_typed (type_char s ch) = total_words_typed s"
  "current_line_index (type_char s ch) = current_line_index s"
  "current_lines (type_char s ch) = current_lines s"
  "current_paragraph (type_char s ch) = current_paragraph s"
  "completed_lines_history (type_char s ch) = completed_lines_history s"
  by (simp_all add: type_char_def Let_def)

lemmas typing_fields =
  start_timer_fields start_timer_more_fields update_live_stats_fields
  update_live_stats_more_fields type_char_fields type_char_more_fields

text \<open>A character that is not discarded and fits on the line is appended, and the completion
  check runs on the result.\<close>

lemma handle_character_appends:
  assumes "length (typed_text s) < length (target_text s)"
    and "typed_text s \<noteq> [] \<or> ch \<noteq> CHR '' ''"
  shows "handle_character s w ch =
     check_line_completion (update_live_stats (type_char (start_timer s w) ch) w) w"
  using assms by (auto simp: handle_character_def Let_def start_timer_fields)

lemma completing_keystroke_ends_test:
  assumes "length (typed_text s) + 1 = length (target_text s)"
    and "typed_text s \<noteq> [] \<or> ch \<noteq> CHR '' ''"
    and "(game_mode s = Some Mode_30word \<and>
           total_words_typed s + length (py_split (target_text s)) \<ge> 30) \<or>
         (game_mode s = Some Mode_unlimited \<and>
           \<not> int (current_line_index s) < int (length (current_lines s)) - 1)"
  shows "\<exists>s' mp. handle_character s w ch = Inr s' \<and> game_state s' = COMPLETE \<and>
           completed_lines_history s' = completed_lines_history s @
             [(target_text s, typed_text s @ [ch], mp), (target_text s, typed_text s @ [ch], mp)]"
proof -
  let ?t = "update_live_stats (type_char (start_timer s w) ch) w"
  from assms(1,2) have h: "handle_character s w ch = check_line_completion ?t w"
    by (intro handle_character_appends) simp_all
  from assms(1) have len: "length (typed_text ?t) = length (target_text ?t)"
    by (simp add: typing_fields)
  from assms(3) len show ?thesis
    unfolding h
    by (auto simp: check_line_completion_def Let_def typing_fields complete_game_fields)
qed

lemma wordsprint_last_line_stalls:
  assumes "length (typed_text s) + 1 = length (target_text s)"
    and "typed_text s \<noteq> [] \<or> ch \<noteq> CHR '' ''"
    and "game_mode s = Some Mode_30word"
    and "total_words_typed s + length (py_split (target_text s)) < 30"
    and "\<not> int (current_line_index s) < int (length (current_lines s)) - 1"
  shows "\<exists>s'. handle_character s w ch = Inr s' \<and> game_state s' = game_state s \<and>
           typed_text s' = typed_text s @ [ch] \<and> target_text s' = target_text s \<and>
           current_lines s' = current_lines s \<and> current_line_index s' = current_line_index s \<and>
           current_paragraph s' = current_paragraph s \<and>
           mistake_positions s \<subseteq> mistake_positions s'"
proof -
  let ?t = "update_live_stats (type_char (start_timer s w) ch) w"
  from assms(1,2) have h: "handle_character s w ch = check_line_completion ?t w"
    by (intro handle_character_appends) simp_all
  from assms(1) have len: "length (typed_text ?t) = length (target_text ?t)"
    by (simp add: typing_fields)
  have mp: "mistake_positions s \<subseteq> mistake_positions ?t"
    using type_char_marks [of "start_timer s w" ch]
    by (auto simp: marks_at_most_def typing_fields)
  from assms(3,4,5) len mp show ?thesis
    unfolding h
    by (auto simp: check_line_completion_def Let_def typing_fields)
qed

section \<open>What completion records\<close>

lemma update_user_stats_totals:
  assumes "current_user s = Some u" and "u \<noteq> []" and "user_data s u = Some st"
  shows "\<exists>st'. user_data (update_user_stats s wpm acc) u = Some st' \<and>
           tests_completed st' = tests_completed st + 1 \<and>
           best_wpm st' = max (best_wpm st) wpm \<and>
           total_accuracy st' = total_accuracy st + acc"
  using assms by (auto simp: update_user_stats_def truthy_def Let_def dom_def max_def)

lemma complete_game_records:
  assumes "current_user s = Some u" and "u \<noteq> []" and "user_data s u = Some st"
  shows "\<exists>st'. user_data (complete_game s w) u = Some st' \<and>
           tests_completed st' = tests_completed st + 1 \<and>
           best_wpm st' = max (best_wpm st) (final_wpm (game_mode s) (total_chars_typed s)
              (if start_time s > 0 then now w - start_time s else elapsed_time s)) \<and>
           total_accuracy st' = total_accuracy st + final_accuracy (total_chars_typed s) (mistakes s)"
proof -
  let ?s4 = "s\<lparr>completed := True, game_state := COMPLETE,
      completed_lines_history := (if typed_text s \<noteq> []
          then completed_lines_history s @ [(target_text s, typed_text s, mistake_positions s)]
          else completed_lines_history s),
      elapsed_time := (if start_time s > 0 then now w - start_time s else elapsed_time s),
      accuracy := final_accuracy (total_chars_typed s) (mistakes s)\<rparr>"
  from assms(1,2) have "complete_game s w =
      update_user_stats ?s4 (final_wpm (game_mode s) (total_chars_typed s)
         (if start_time s > 0 then now w - start_time s else elapsed_time s))
        (final_accuracy (total_chars_typed s) (mistakes s))"
    by (simp add: complete_game_def Let_def truthy_def)
  moreover have "current_user ?s4 = Some u" "user_data ?s4 u = Some st"
    using assms by simp_all
  ultimately show ?thesis
    using update_user_stats_totals [of ?s4 u st] assms(2) by simp
qed

lemma completing_keystroke_advances:
  assumes "length (typed_text s) + 1 = length (target_text s)"
    and "typed_text s \<noteq> [] \<or> ch \<noteq> CHR '' ''"
    and "\<not> (game_mode s = Some Mode_30word \<and>
           total_words_typed s + length (py_split (target_text s)) \<ge> 30)"
    and "int (current_line_index s) < int (length (current_lines s)) - 1"
  shows "\<exists>s' mp. handle_character s w ch = Inr s' \<and> typed_text s' = [] \<and>
           current_line_index s' = current_line_index s + 1 \<and>
           completed_lines_history s' = completed_lines_history s @
             [(target_text s, typed_text s @ [ch], mp)]"
proof -
  let ?t = "update_live_stats (type_char (start_timer s w) ch) w"
  from assms(1,2) have h: "handle_character s w ch = check_line_completion ?t w"
    by (intro handle_character_appends) simp_all
  from assms(1) have len: "length (typed_text ?t) = length (target_text ?t)"
    by (simp add: typing_fields)
  from assms(3,4) len show ?thesis
    unfolding h
    by (auto simp: check_line_completion_def Let_def typing_fields)
qed

lemma cat_typing2_reachable: "reachable (projr cat_typing2)"
proof -
  from cat_typing2_eval have "cat_typing2 = Inr (projr cat_typing2)"
    by (cases cat_typing2) auto
  then have "run (init_game [''cat sat''] None Map.empty)
       [(world_at 100, Key ''3''), (world_at 100, Key ''enter''), (world_at 100, Key ''c''),
        (world_at 106, Key ''x'')] = Inr (projr cat_typing2)"
    by (simp only: cat_typing2_def)
  with reachable_init show ?thesis by (rule reachable_run)
qed


section \<open>Evaluating double-precision quotients\<close>

text \<open>Once the binade of a number is known, its rounding is a rounding to an integer.\<close>

lemma pow2_powr: "pow2 k = 2 powr (of_int k)"
  by (simp add: pow2_def powr_real_of_int inverse_eq_divide)

lemma binade_eqI:
  assumes "pow2 e \<le> \<bar>x\<bar>" and "\<bar>x\<bar> < pow2 (e + 1)" and "- 1022 \<le> e"
  shows "binade x = e"
proof -
  from assms(1) pow2_pos [of e] have pos: "0 < \<bar>x\<bar>" by linarith
  have "\<lfloor>log 2 \<bar>x\<bar>\<rfloor> = e"
    using assms(1,2) pos by (subst floor_log_eq_powr_iff) (simp_all add: pow2_powr)
  with assms(3) show ?thesis by (simp add: binade_def)
qed

lemma to_double_eval:
  assumes "pow2 e \<le> \<bar>x\<bar>" and "\<bar>x\<bar> < pow2 (e + 1)" and "- 1022 \<le> e"
  shows "to_double x = of_int (round_half_even (x / pow2 (e - 52))) * pow2 (e - 52)"
proof -
  from assms(1) pow2_pos [of e] have "x \<noteq> 0" by auto
  moreover from assms have "binade x = e" by (rule binade_eqI)
  ultimately show ?thesis by (simp add: to_double_def Let_def)
qed

text \<open>Quotients with an exact double as result.\<close>

lemma fdiv_0_60: "fdiv 0 60 = 0"
  by (simp add: fdiv_def to_double_def)

lemma fdiv_5_5: "fdiv 5 5 = 1"
  unfolding fdiv_def
  by (subst to_double_eval [where e = 0]) (simp_all add: pow2_def round_half_even_def)

lemma fdiv_1_1: "fdiv 1 1 = 1"
  unfolding fdiv_def
  by (subst to_double_eval [where e = 0]) (simp_all add: pow2_def round_half_even_def)

lemma fdiv_60_60: "fdiv 60 60 = 1"
  unfolding fdiv_def
  by (subst to_double_eval [where e = 0]) (simp_all add: pow2_def round_half_even_def)

lemma fdiv_250_5: "fdiv 250 5 = 50"
  unfolding fdiv_def
  by (subst to_double_eval [where e = 5]) (simp_all add: pow2_def round_half_even_def)

lemma fdiv_50_1: "fdiv 50 1 = 50"
  unfolding fdiv_def
  by (subst to_double_eval [where e = 5]) (simp_all add: pow2_def round_half_even_def)

lemma fdiv_30_1: "fdiv 30 1 = 30"
  unfolding fdiv_def
  by (subst to_double_eval [where e = 4]) (simp_all add: pow2_def round_half_even_def)

lemmas fdiv_exact_values =
  fdiv_0_60 fdiv_5_5 fdiv_1_1 fdiv_60_60 fdiv_250_5 fdiv_50_1 fdiv_30_1

lemma fdiv_50_half: "fdiv 50 (1 / 2) = 100"
  unfolding fdiv_def
  by (subst to_double_eval [where e = 6]) (simp_all add: pow2_def round_half_even_def)

lemma fdiv_minus_30_60: "fdiv (- 30) 60 = - (1 / 2)"
  unfolding fdiv_def
  by (subst to_double_eval [where e = "- 1"]) (simp_all add: pow2_def round_half_even_def)

text \<open>112 characters in 48 seconds: neither \<open>112 / 5\<close> nor \<open>48 / 60\<close> is a double, and the
  quotient of their roundings rounds to a double just below 28.\<close>

lemma fdiv_112_5: "fdiv 112 5 = 6305039478318694 / 2 ^ 48"
  unfolding fdiv_def
  by (subst to_double_eval [where e = 4]) (simp_all add: pow2_def round_half_even_def)

lemma fdiv_48_60: "fdiv 48 60 = 7205759403792794 / 2 ^ 53"
  unfolding fdiv_def
  by (subst to_double_eval [where e = "- 1"]) (simp_all add: pow2_def round_half_even_def)

lemma fdiv_quotient_112_48:
  "fdiv (6305039478318694 / 2 ^ 48) (7205759403792794 / 2 ^ 53) = 7881299347898367 / 2 ^ 48"
  unfolding fdiv_def
  by (subst to_double_eval [where e = 4]) (simp_all add: pow2_def round_half_even_def)

lemma wpm_quotient_112_48:
  "0 < fdiv 48 60 \<and> py_int (fdiv (fdiv 112 5) (fdiv 48 60)) = 27"
proof -
  have q: "fdiv (fdiv 112 5) (fdiv 48 60) = 7881299347898367 / 2 ^ 48"
    by (simp only: fdiv_112_5 fdiv_48_60 fdiv_quotient_112_48)
  have m: "0 < fdiv 48 60" by (simp add: fdiv_48_60)
  from m show ?thesis by (simp add: q py_int_def)
qed

text \<open>3 characters in 6 seconds: the quotient of the rounded \<open>3 / 5\<close> and \<open>6 / 60\<close> rounds
  to a double just below 6.\<close>

lemma fdiv_3_5: "fdiv 3 5 = 5404319552844595 / 2 ^ 53"
  unfolding fdiv_def
  by (subst to_double_eval [where e = "- 1"]) (simp_all add: pow2_def round_half_even_def)

lemma fdiv_6_60: "fdiv 6 60 = 7205759403792794 / 2 ^ 56"
  unfolding fdiv_def
  by (subst to_double_eval [where e = "- 4"]) (simp_all add: pow2_def round_half_even_def)

lemma fdiv_quotient_3_6:
  "fdiv (5404319552844595 / 2 ^ 53) (7205759403792794 / 2 ^ 56) = 6755399441055743 / 2 ^ 50"
  unfolding fdiv_def
  by (subst to_double_eval [where e = 2]) (simp_all add: pow2_def round_half_even_def)

lemma wpm_quotient_3_6:
  "0 < fdiv 6 60 \<and> py_int (fdiv (fdiv 3 5) (fdiv 6 60)) = 5"
proof -
  have q: "fdiv (fdiv 3 5) (fdiv 6 60) = 6755399441055743 / 2 ^ 50"
    by (simp only: fdiv_3_5 fdiv_6_60 fdiv_quotient_3_6)
  have m: "0 < fdiv 6 60" by (simp add: fdiv_6_60)
  from m show ?thesis by (simp add: q py_int_def)
qed

lemma hello_clock_back_eval:
  "\<not> isl hello_clock_back \<and> game_state (projr hello_clock_back) = COMPLETE \<and>
   game_mode (projr hello_clock_back) = Some Mode_unlimited \<and>
   typed_text (projr hello_clock_back) = ''hello'' \<and>
   total_chars_typed (projr hello_clock_back) = 5 \<and>
   mistakes (projr hello_clock_back) = 0 \<and>
   start_time (projr hello_clock_back) = 100 \<and>
   elapsed_time (projr hello_clock_back) = - 30 \<and>
   best_wpm (the (user_data (projr hello_clock_back) ''ann'')) = 1"
  by (simp add: hello_clock_back_def session_defs new_user_stats_def fdiv_exact_values)

section \<open>Completed-line history (C1)\<close>

text \<open>
  Claim C1. Every input event that completes a line should add exactly one entry to
  \<open>completed_lines_history\<close>, the triple of target line, typed buffer and mistake positions,
  also when the keystroke ends the test. The code adds the entry twice at a keystroke that
  ends the test: \<^verbatim>\<open>check_line_completion\<close> appends it and then calls \<^verbatim>\<open>complete_game\<close>,
  which appends the still uncleared buffer again (\<open>completing_keystroke_ends_test\<close> above;
  \<open>completing_keystroke_advances\<close> is the case that adds one entry). Evaluated here on an
  unlimited test over the one-line paragraph \<^verbatim>\<open>hi\<close>: before the last key the history is
  empty, after it the history holds the line twice.
\<close>

theorem final_keystroke_appends_history_twice:
  "\<not> isl hi_unlimited \<and> game_state (projr hi_unlimited) = IN_TEST \<and>
   game_mode (projr hi_unlimited) = Some Mode_unlimited \<and>
   target_text (projr hi_unlimited) = ''hi'' \<and> typed_text (projr hi_unlimited) = ''h'' \<and>
   completed_lines_history (projr hi_unlimited) = [] \<and>
   \<not> isl (step (projr hi_unlimited) (world_at 101) (Key ''i'')) \<and>
   game_state (projr (step (projr hi_unlimited) (world_at 101) (Key ''i''))) = COMPLETE \<and>
   completed_lines_history (projr (step (projr hi_unlimited) (world_at 101) (Key ''i''))) =
     [(''hi'', ''hi'', {}), (''hi'', ''hi'', {})]"
  by (simp add: hi_unlimited_def session_defs)

section \<open>Exhausted paragraph in 30-word mode (C2)\<close>

text \<open>
  Claim C2. In 30-word mode, completing the last line of the paragraph with fewer than 30
  words typed should draw a fresh paragraph and go on with an empty buffer. The code has no
  branch for this mode when the lines are exhausted (\<open>wordsprint_last_line_stalls\<close> above):
  the state keeps the full buffer on the same line of the same paragraph. Evaluated here on
  the one-line paragraph \<^verbatim>\<open>hi\<close>: after the last key the test is still running with one
  word counted, and line, index, target and buffer are those of the finished line.
\<close>

theorem wordsprint_short_paragraph_stalls:
  "\<not> isl hi_wordsprint \<and> game_state (projr hi_wordsprint) = IN_TEST \<and>
   game_mode (projr hi_wordsprint) = Some Mode_30word \<and>
   current_lines (projr hi_wordsprint) = [''hi''] \<and>
   current_line_index (projr hi_wordsprint) = 0 \<and>
   target_text (projr hi_wordsprint) = ''hi'' \<and> typed_text (projr hi_wordsprint) = ''h'' \<and>
   \<not> isl (step (projr hi_wordsprint) (world_at 101) (Key ''i'')) \<and>
   game_state (projr (step (projr hi_wordsprint) (world_at 101) (Key ''i''))) = IN_TEST \<and>
   total_words_typed (projr (step (projr hi_wordsprint) (world_at 101) (Key ''i''))) = 1 \<and>
   typed_text (projr (step (projr hi_wordsprint) (world_at 101) (Key ''i''))) = ''hi'' \<and>
   target_text (projr (step (projr hi_wordsprint) (world_at 101) (Key ''i''))) = ''hi'' \<and>
   current_lines (projr (step (projr hi_wordsprint) (world_at 101) (Key ''i''))) = [''hi''] \<and>
   current_line_index (projr (step (projr hi_wordsprint) (world_at 101) (Key ''i''))) = 0"
  by (simp add: hi_wordsprint_def session_defs)

section \<open>Cancelling a running test (C3)\<close>

text \<open>
  Claim C3, as amended. The key \<^verbatim>\<open>escape\<close> while typing returns to the menu with the chosen
  mode retained; the typed buffer is emptied and the timer is unset (\<open>start_time\<close> and
  \<open>elapsed_time\<close> are 0 again). The claim as written (mode cleared, all per-session state
  reset) fails: \<^verbatim>\<open>cancel_test\<close> writes the same four attributes as \<^verbatim>\<open>cancel_ready\<close> and
  nothing else.
\<close>

theorem cancel_test_keeps_mode:
  assumes "game_state s = IN_TEST"
  shows "\<exists>s'. on_key s w ''escape'' = Inr s' \<and> game_state s' = MENU \<and>
           game_mode s' = game_mode s \<and> typed_text s' = [] \<and>
           start_time s' = 0 \<and> elapsed_time s' = 0"
  using assms by (simp add: on_key_def on_key_in_test_def cancel_test_def)

theorem cancel_test_keeps_mode_witness:
  "game_state (projr cat_typing) = IN_TEST \<and>
   (\<exists>s'. on_key (projr cat_typing) (world_at 101) ''escape'' = Inr s' \<and>
      game_state s' = MENU \<and> game_mode s' = game_mode (projr cat_typing) \<and>
      typed_text s' = [] \<and> start_time s' = 0 \<and> elapsed_time s' = 0)"
proof -
  have ev: "game_state (projr cat_typing) = IN_TEST"
    by (simp add: cat_typing_def session_defs)
  with cancel_test_keeps_mode [of "projr cat_typing" "world_at 101"] show ?thesis by simp
qed

text \<open>After one wrong key in unlimited mode, \<^verbatim>\<open>escape\<close> leaves the mode chosen and the
  character count, mistake count and mistake positions of the cancelled test in place.\<close>

theorem cancel_test_discards_session_counterexample:
  "\<not> isl cat_typing \<and> game_state (projr cat_typing) = IN_TEST \<and>
   \<not> isl (on_key (projr cat_typing) (world_at 101) ''escape'') \<and>
   game_state (projr (on_key (projr cat_typing) (world_at 101) ''escape'')) = MENU \<and>
   game_mode (projr (on_key (projr cat_typing) (world_at 101) ''escape'')) =
     Some Mode_unlimited \<and>
   total_chars_typed (projr (on_key (projr cat_typing) (world_at 101) ''escape'')) = 1 \<and>
   mistakes (projr (on_key (projr cat_typing) (world_at 101) ''escape'')) = 1 \<and>
   mistake_positions (projr (on_key (projr cat_typing) (world_at 101) ''escape'')) = {0}"
  by (simp add: cat_typing_def session_defs)

section \<open>Mistake de-duplication (C4)\<close>

text \<open>
  Claim C4. Within one line instance (any sequence of characters and backspaces during which
  no line completes) the target line stays, marked offsets are never unmarked, and
  \<open>mistakes\<close> grows by exactly the number of offsets newly marked, each of them an offset
  of the line. So an offset contributes at most 1 to \<open>mistakes\<close> however often it is
  mistyped, backspaced and retyped, nothing if it was marked before, and retyping it
  correctly does not remove the mark; \<open>mistake_positions\<close> is a set, so an offset occurs in
  it at most once.
\<close>

theorem mistakes_counted_once_per_offset:
  assumes "line_run s ks = Some s'"
  shows "target_text s' = target_text s \<and>
         mistake_positions s \<subseteq> mistake_positions s' \<and>
         finite (mistake_positions s' - mistake_positions s) \<and>
         (\<forall>p \<in> mistake_positions s' - mistake_positions s. p < length (target_text s)) \<and>
         mistakes s' = mistakes s + card (mistake_positions s' - mistake_positions s) \<and>
         (\<forall>k. mistake_positions s' - mistake_positions s \<subseteq> {k} \<longrightarrow>
            mistakes s' \<le> mistakes s + 1)"
proof -
  have main: "target_text s' = target_text s \<and>
         mistake_positions s \<subseteq> mistake_positions s' \<and>
         finite (mistake_positions s' - mistake_positions s) \<and>
         (\<forall>p \<in> mistake_positions s' - mistake_positions s. p < length (target_text s)) \<and>
         mistakes s' = mistakes s + card (mistake_positions s' - mistake_positions s)"
    using assms
  proof (induction ks arbitrary: s)
    case Nil
    then show ?case by simp
  next
    case (Cons a ks)
    obtain w k where a: "a = (w, k)" by (cases a)
    from Cons.prems a obtain t where
      g: "(game_state s = IN_TEST \<and> k \<noteq> ''escape'') \<or>
          (game_state s = READY \<and> k \<noteq> ''enter'')"
      and t: "on_key s w k = Inr t" "lines_completed t = lines_completed s"
      and r: "line_run t ks = Some s'"
      by (auto split: if_splits sum.splits)
    from Cons.IH [OF r] have ih: "target_text s' = target_text t"
      "mistake_positions t \<subseteq> mistake_positions s'"
      "finite (mistake_positions s' - mistake_positions t)"
      "\<forall>p \<in> mistake_positions s' - mistake_positions t. p < length (target_text t)"
      "mistakes s' = mistakes t + card (mistake_positions s' - mistake_positions t)"
      by simp_all
    from on_key_same_line [OF t g] have tt: "target_text t = target_text s"
      and st: "mistake_positions t = mistake_positions s \<and> mistakes t = mistakes s \<or>
        (\<exists>p. p \<notin> mistake_positions s \<and> p < length (target_text s) \<and>
           mistake_positions t = insert p (mistake_positions s) \<and>
           mistakes t = mistakes s + 1)"
      by simp_all
    from st show ?case
    proof
      assume "mistake_positions t = mistake_positions s \<and> mistakes t = mistakes s"
      with ih tt show ?thesis by simp
    next
      assume "\<exists>p. p \<notin> mistake_positions s \<and> p < length (target_text s) \<and>
           mistake_positions t = insert p (mistake_positions s) \<and>
           mistakes t = mistakes s + 1"
      then obtain p where p: "p \<notin> mistake_positions s" "p < length (target_text s)"
        "mistake_positions t = insert p (mistake_positions s)" "mistakes t = mistakes s + 1"
        by blast
      let ?D = "mistake_positions s' - mistake_positions t"
      from p(1,3) ih(2) have d: "mistake_positions s' - mistake_positions s = insert p ?D"
        by auto
      have pn: "p \<notin> ?D" using p(3) by simp
      from ih(3) pn have c: "card (insert p ?D) = card ?D + 1" by simp
      have 1: "target_text s' = target_text s" using ih(1) tt by simp
      have 2: "mistake_positions s \<subseteq> mistake_positions s'" using ih(2) p(3) by blast
      have 3: "finite (mistake_positions s' - mistake_positions s)" using d ih(3) by simp
      have 4: "\<forall>q \<in> mistake_positions s' - mistake_positions s. q < length (target_text s)"
        using d ih(4) tt p(2) by auto
      have 5: "mistakes s' = mistakes s + card (mistake_positions s' - mistake_positions s)"
        using d c ih(5) p(4) by simp
      from 1 2 3 4 5 show ?thesis by blast
    qed
  qed
  have "mistakes s' \<le> mistakes s + 1"
    if "mistake_positions s' - mistake_positions s \<subseteq> {k}" for k
  proof -
    from that have "card (mistake_positions s' - mistake_positions s) \<le> card {k}"
      by (intro card_mono) simp_all
    with main show ?thesis by simp
  qed
  with main show ?thesis by blast
qed

theorem mistakes_counted_once_per_offset_witness:
  "line_run (projr cat_ready) retype_keys = Some (the (line_run (projr cat_ready) retype_keys)) \<and>
   typed_text (the (line_run (projr cat_ready) retype_keys)) = ''c'' \<and>
   total_chars_typed (the (line_run (projr cat_ready) retype_keys)) = 3 \<and>
   mistake_positions (the (line_run (projr cat_ready) retype_keys)) = {0} \<and>
   mistakes (the (line_run (projr cat_ready) retype_keys)) = 1 \<and>
   mistakes (the (line_run (projr cat_ready) retype_keys)) =
     mistakes (projr cat_ready) +
     card (mistake_positions (the (line_run (projr cat_ready) retype_keys)) -
           mistake_positions (projr cat_ready))"
proof -
  from retype_eval have r: "line_run (projr cat_ready) retype_keys =
      Some (the (line_run (projr cat_ready) retype_keys))" by simp
  from mistakes_counted_once_per_offset [OF r] r retype_eval show ?thesis by simp
qed

section \<open>Final words per minute (C5)\<close>

text \<open>
  Claim C5, as amended. The final WPM computed at completion depends on the mode: the
  30-second mode divides \<open>total_chars_typed / 5\<close> by the fixed 0.5 minutes whatever the
  elapsed time; the 30-word mode divides the target 30 by \<open>elapsed / 60\<close>; unlimited mode
  divides \<open>total_chars_typed / 5\<close> by \<open>elapsed / 60\<close>, with 1 in place of the minutes
  whenever the elapsed time is not positive (0 or negative). Every division is the
  program's double-precision division; the quotient is truncated to an integer and the
  result is 0 when the minutes are not positive. \<^verbatim>\<open>complete_game\<close> computes this value
  from the mode, the character count and the elapsed time at the moment of completion, and
  raises the current user's best WPM to it. The claim as written substitutes 1 only when
  the elapsed time is 0, so that a negative elapsed time would give 0 in unlimited mode.
\<close>

theorem final_wpm_by_mode:
  "final_wpm (Some Mode_30sec) chars elapsed = spec_wpm (fdiv (real chars) 5) 0.5 \<and>
   final_wpm (Some Mode_30word) chars elapsed = spec_wpm 30 (fdiv elapsed 60) \<and>
   final_wpm (Some Mode_unlimited) chars elapsed =
     spec_wpm (fdiv (real chars) 5) (if 0 < elapsed then fdiv elapsed 60 else 1) \<and>
   (current_user s = Some u \<and> u \<noteq> [] \<and> user_data s u = Some st \<longrightarrow>
      (\<exists>st'. user_data (complete_game s w) u = Some st' \<and>
         best_wpm st' = max (best_wpm st) (final_wpm (game_mode s) (total_chars_typed s)
            (if start_time s > 0 then now w - start_time s else elapsed_time s))))"
proof -
  have a: "final_wpm (Some Mode_30sec) chars elapsed = spec_wpm (fdiv (real chars) 5) 0.5 \<and>
   final_wpm (Some Mode_30word) chars elapsed = spec_wpm 30 (fdiv elapsed 60) \<and>
   final_wpm (Some Mode_unlimited) chars elapsed =
     spec_wpm (fdiv (real chars) 5) (if 0 < elapsed then fdiv elapsed 60 else 1)"
    by (simp add: final_wpm_def spec_wpm_def)
  have b: "\<exists>st'. user_data (complete_game s w) u = Some st' \<and>
         best_wpm st' = max (best_wpm st) (final_wpm (game_mode s) (total_chars_typed s)
            (if start_time s > 0 then now w - start_time s else elapsed_time s))"
    if "current_user s = Some u" "u \<noteq> []" "user_data s u = Some st"
    using complete_game_records [OF that] by blast
  from a b show ?thesis by blast
qed

theorem final_wpm_by_mode_witness:
  "final_wpm (Some Mode_30sec) 250 7 = 100 \<and>
   final_wpm (Some Mode_30word) 250 60 = 30 \<and>
   final_wpm (Some Mode_30word) 250 0 = 0 \<and>
   final_wpm (Some Mode_unlimited) 250 60 = 50 \<and>
   final_wpm (Some Mode_unlimited) 250 0 = 50 \<and>
   final_wpm (Some Mode_unlimited) 112 48 = 27 \<and>
   final_wpm (Some Mode_unlimited) 3 6 = 5 \<and>
   current_user ann_test = Some ''ann'' \<and> user_data ann_test ''ann'' = Some new_user_stats \<and>
   (\<exists>st'. user_data (complete_game ann_test (world_at 160)) ''ann'' = Some st' \<and>
      best_wpm st' = 50)"
proof -
  have ann: "current_user ann_test = Some ''ann'' \<and>
      user_data ann_test ''ann'' = Some new_user_stats \<and>
      game_mode ann_test = Some Mode_unlimited \<and>
      total_chars_typed ann_test = 250 \<and> start_time ann_test = 100"
    by (simp add: ann_test_def init_game_def)
  have w: "now (world_at 160) = 160" by (simp add: world_at_def)
  have v: "final_wpm (Some Mode_30sec) 250 7 = 100 \<and>
      final_wpm (Some Mode_30word) 250 60 = 30 \<and>
      final_wpm (Some Mode_unlimited) 250 60 = 50"
    using final_wpm_by_mode [of 250 7 ann_test "''ann''" new_user_stats "world_at 160"]
      final_wpm_by_mode [of 250 60 ann_test "''ann''" new_user_stats "world_at 160"]
    by (simp add: spec_wpm_def py_int_def fdiv_exact_values fdiv_50_half)
  have z: "final_wpm (Some Mode_30word) 250 0 = 0 \<and>
      final_wpm (Some Mode_unlimited) 250 0 = 50"
    using final_wpm_by_mode [of 250 0 ann_test "''ann''" new_user_stats "world_at 160"]
    by (simp add: spec_wpm_def py_int_def fdiv_exact_values)
  have r: "final_wpm (Some Mode_unlimited) 112 48 = 27"
    using final_wpm_by_mode [of 112 48 ann_test "''ann''" new_user_stats "world_at 160"]
      wpm_quotient_112_48
    by (simp add: spec_wpm_def)
  have r': "final_wpm (Some Mode_unlimited) 3 6 = 5"
    using final_wpm_by_mode [of 3 6 ann_test "''ann''" new_user_stats "world_at 160"]
      wpm_quotient_3_6
    by (simp add: spec_wpm_def)
  from ann w final_wpm_by_mode [of 250 60 ann_test "''ann''" new_user_stats "world_at 160"]
  obtain st' where "user_data (complete_game ann_test (world_at 160)) ''ann'' = Some st'"
    and "best_wpm st' = max (best_wpm new_user_stats)
      (final_wpm (Some Mode_unlimited) 250 60)"
    by auto
  with v have c: "\<exists>st'. user_data (complete_game ann_test (world_at 160)) ''ann'' = Some st' \<and>
      best_wpm st' = 50"
    by (simp add: new_user_stats_def)
  from ann v z r r' c show ?thesis by blast
qed

text \<open>The clock is set back 30 seconds while the user ann types \<^verbatim>\<open>hello\<close> in unlimited
  mode: the test completes with an elapsed time of \<open>-30\<close>, the code takes 1 minute and
  records a WPM of 1, and the claim's minutes \<open>-30 / 60\<close> are not positive, which gives 0.\<close>

theorem final_wpm_negative_elapsed_counterexample:
  "\<not> isl hello_clock_back \<and> game_state (projr hello_clock_back) = COMPLETE \<and>
   game_mode (projr hello_clock_back) = Some Mode_unlimited \<and>
   total_chars_typed (projr hello_clock_back) = 5 \<and>
   elapsed_time (projr hello_clock_back) = - 30 \<and>
   best_wpm (the (user_data (projr hello_clock_back) ''ann'')) = 1 \<and>
   final_wpm (Some Mode_unlimited) 5 (- 30) = 1 \<and>
   spec_wpm (fdiv 5 5) (claimed_unlimited_minutes (- 30)) = 0"
proof -
  have f: "final_wpm (Some Mode_unlimited) 5 (- 30) = 1"
    by (simp add: final_wpm_def py_int_def fdiv_exact_values)
  have c: "spec_wpm (fdiv 5 5) (claimed_unlimited_minutes (- 30)) = 0"
    by (simp add: spec_wpm_def claimed_unlimited_minutes_def fdiv_minus_30_60)
  from hello_clock_back_eval f c show ?thesis by simp
qed

section \<open>Leading-space suppression (C6)\<close>

text \<open>
  Claim C6. When the typed buffer is empty and the target line is non-empty and does not begin
  with a space, \<^verbatim>\<open>handle_character\<close> on a space returns the state it was given: buffer,
  mistake set, counters and \<open>start_time\<close> are all as before. The same holds for the key
  \<^verbatim>\<open>space\<close> while typing; from the ready state the key press itself enters the typing state
  and nothing else changes.
\<close>

theorem leading_space_discarded:
  assumes "typed_text s = []" and "target_text s \<noteq> []" and "hd (target_text s) \<noteq> CHR '' ''"
  shows "handle_character s w (CHR '' '') = Inr s \<and>
         (game_state s = IN_TEST \<longrightarrow> on_key s w ''space'' = Inr s) \<and>
         (game_state s = READY \<longrightarrow> on_key s w ''space'' = Inr (s\<lparr>game_state := IN_TEST\<rparr>))"
proof -
  from assms(2,3) have "target_text s ! 0 \<noteq> CHR '' ''"
    by (cases "target_text s") auto
  with assms(1,2) have discard:
    "\<And>t. typed_text t = typed_text s \<Longrightarrow> target_text t = target_text s \<Longrightarrow>
       handle_character t w (CHR '' '') = Inr t"
    by (simp add: handle_character_def)
  show ?thesis
    by (simp add: discard on_key_def on_key_in_test_def on_key_ready_def key_char_def)
qed

theorem leading_space_discarded_witness:
  "\<not> isl cat_ready \<and> game_state (projr cat_ready) = READY \<and>
   typed_text (projr cat_ready) = [] \<and> target_text (projr cat_ready) = ''cat sat'' \<and>
   hd (target_text (projr cat_ready)) \<noteq> CHR '' '' \<and>
   start_time (projr cat_ready) = 0 \<and>
   handle_character (projr cat_ready) (world_at 101) (CHR '' '') = Inr (projr cat_ready) \<and>
   on_key (projr cat_ready) (world_at 101) ''space'' =
     Inr ((projr cat_ready)\<lparr>game_state := IN_TEST\<rparr>)"
proof -
  have ev: "\<not> isl cat_ready \<and> game_state (projr cat_ready) = READY \<and>
      typed_text (projr cat_ready) = [] \<and> target_text (projr cat_ready) = ''cat sat'' \<and>
      start_time (projr cat_ready) = 0"
    by (simp add: cat_ready_def session_defs)
  then show ?thesis
    using leading_space_discarded [of "projr cat_ready" "world_at 101"] by simp
qed

section \<open>Backspace (C7)\<close>

text \<open>
  Claim C7. While typing, the key \<^verbatim>\<open>backspace\<close> removes exactly the last character of a
  non-empty typed buffer and does nothing on an empty one. It leaves \<open>total_chars_typed\<close>,
  \<open>mistakes\<close>, both streaks and the mistake positions as they are, and the line index and
  target line do not move.
\<close>

theorem backspace_effect:
  assumes "game_state s = IN_TEST"
  shows "\<exists>s'. on_key s w ''backspace'' = Inr s' \<and>
           typed_text s' = butlast (typed_text s) \<and>
           (typed_text s = [] \<longrightarrow> s' = s) \<and>
           (typed_text s \<noteq> [] \<longrightarrow> typed_text s = typed_text s' @ [last (typed_text s)]) \<and>
           total_chars_typed s' = total_chars_typed s \<and> mistakes s' = mistakes s \<and>
           current_streak s' = current_streak s \<and> best_streak s' = best_streak s \<and>
           mistake_positions s' = mistake_positions s \<and>
           current_line_index s' = current_line_index s \<and> target_text s' = target_text s \<and>
           current_lines s' = current_lines s \<and> lines_completed s' = lines_completed s \<and>
           completed_lines_history s' = completed_lines_history s \<and> game_state s' = IN_TEST"
  using assms by (simp add: on_key_def on_key_in_test_def)

theorem backspace_effect_witness:
  "\<not> isl cat_typing \<and> game_state (projr cat_typing) = IN_TEST \<and>
   typed_text (projr cat_typing) = ''x'' \<and>
   (\<exists>s'. on_key (projr cat_typing) (world_at 101) ''backspace'' = Inr s' \<and>
      typed_text s' = [] \<and> total_chars_typed s' = 1 \<and> mistakes s' = 1 \<and>
      mistake_positions s' = {0} \<and> current_line_index s' = 0 \<and>
      on_key s' (world_at 102) ''backspace'' = Inr s')"
proof -
  have ev: "\<not> isl cat_typing \<and> game_state (projr cat_typing) = IN_TEST \<and>
      typed_text (projr cat_typing) = ''x'' \<and> total_chars_typed (projr cat_typing) = 1 \<and>
      mistakes (projr cat_typing) = 1 \<and> mistake_positions (projr cat_typing) = {0} \<and>
      current_line_index (projr cat_typing) = 0"
    by (simp add: cat_typing_def session_defs)
  from ev backspace_effect [of "projr cat_typing" "world_at 101"]
  obtain s' where s': "on_key (projr cat_typing) (world_at 101) ''backspace'' = Inr s'"
    "typed_text s' = []" "total_chars_typed s' = 1" "mistakes s' = 1"
    "mistake_positions s' = {0}" "current_line_index s' = 0" "game_state s' = IN_TEST"
    by auto
  from s'(2,7) backspace_effect [of s' "world_at 102"]
  have "on_key s' (world_at 102) ''backspace'' = Inr s'" by auto
  with ev s' show ?thesis by blast
qed

section \<open>Streaks (C8)\<close>

text \<open>
  Claim C8. In every reachable state \<open>current_streak \<le> best_streak\<close>, and every step that
  does not discard the session for a fresh one (any key while ready or typing, either cancel,
  a timer tick, the completion of the test) leaves \<open>best_streak\<close> at least as large as it
  was and keeps it above \<open>current_streak\<close>.
\<close>

theorem best_streak_monotone:
  assumes "reachable s"
  shows "current_streak s \<le> best_streak s \<and>
         (\<forall>w ev s'. step s w ev = Inr s' \<and> \<not> starts_new_session s ev \<longrightarrow>
            best_streak s \<le> best_streak s' \<and> current_streak s' \<le> best_streak s')"
proof -
  from assms have inv: "session_inv s" by (rule reachable_inv)
  have "best_streak s \<le> best_streak s' \<and> current_streak s' \<le> best_streak s'"
    if "step s w ev = Inr s'" and "\<not> starts_new_session s ev" for w ev s'
  proof -
    from inv that(1) have "session_inv s'" by (rule step_inv)
    with step_best_streak [OF that] show ?thesis by (simp add: session_inv_def)
  qed
  with inv show ?thesis by (auto simp: session_inv_def)
qed

theorem best_streak_monotone_witness:
  "reachable (projr cat_typing2) \<and>
   current_streak (projr cat_typing2) \<le> best_streak (projr cat_typing2) \<and>
   \<not> isl (step (projr cat_typing2) (world_at 107) (Key ''t'')) \<and>
   \<not> starts_new_session (projr cat_typing2) (Key ''t'') \<and>
   best_streak (projr cat_typing2) \<le>
     best_streak (projr (step (projr cat_typing2) (world_at 107) (Key ''t'')))"
proof -
  have nx: "step (projr cat_typing2) (world_at 107) (Key ''t'') =
      Inr (projr (step (projr cat_typing2) (world_at 107) (Key ''t'')))"
    using cat_typing2_next by (cases "step (projr cat_typing2) (world_at 107) (Key ''t'')") auto
  have ns: "\<not> starts_new_session (projr cat_typing2) (Key ''t'')"
    using cat_typing2_eval by (simp add: starts_new_session_def)
  from best_streak_monotone [OF cat_typing2_reachable] nx ns cat_typing2_next
    cat_typing2_reachable
  show ?thesis by blast
qed

section \<open>Metrics bounds (C9)\<close>

text \<open>
  Claim C9. In every reachable state \<open>mistakes \<le> total_chars_typed\<close>; the live accuracy, the
  stored final accuracy and the final accuracy that completion would compute lie in
  \<open>[0, 100]\<close>; the live WPM and the final WPM that completion would compute (whatever the
  elapsed time) are not negative. Every step (key, backspace, tick, reset) leads to a state
  with \<open>mistakes \<le> total_chars_typed\<close> again.
\<close>

theorem metrics_bounds:
  assumes "reachable s"
  shows "mistakes s \<le> total_chars_typed s \<and>
         0 \<le> live_accuracy s \<and> live_accuracy s \<le> 100 \<and>
         0 \<le> accuracy s \<and> accuracy s \<le> 100 \<and>
         0 \<le> final_accuracy (total_chars_typed s) (mistakes s) \<and>
         final_accuracy (total_chars_typed s) (mistakes s) \<le> 100 \<and>
         0 \<le> live_wpm s \<and>
         (\<forall>e. 0 \<le> final_wpm (game_mode s) (total_chars_typed s) e) \<and>
         (\<forall>w ev s'. step s w ev = Inr s' \<longrightarrow> mistakes s' \<le> total_chars_typed s')"
proof -
  from assms have inv: "session_inv s" by (rule reachable_inv)
  have "mistakes s' \<le> total_chars_typed s'" if "step s w ev = Inr s'" for w ev s'
    using step_inv [OF inv that] by (simp add: session_inv_def)
  with inv show ?thesis
    by (auto simp: session_inv_def final_accuracy_bounds final_wpm_nonneg)
qed

theorem metrics_bounds_witness:
  "reachable (projr cat_typing2) \<and>
   mistakes (projr cat_typing2) = 1 \<and> total_chars_typed (projr cat_typing2) = 2 \<and>
   live_accuracy (projr cat_typing2) = 50 \<and> live_wpm (projr cat_typing2) = 4 \<and>
   mistakes (projr cat_typing2) \<le> total_chars_typed (projr cat_typing2) \<and>
   live_accuracy (projr cat_typing2) \<le> 100 \<and>
   0 \<le> final_wpm (game_mode (projr cat_typing2)) (total_chars_typed (projr cat_typing2)) 6"
  using metrics_bounds [OF cat_typing2_reachable] cat_typing2_reachable cat_typing2_eval
  by simp

section \<open>User aggregates at completion (C10)\<close>

text \<open>
  Claim C10. When a test completes while no current user is set and the username prompt is
  dismissed without a name, the user dictionary is unchanged and there is still no current
  user. \<^verbatim>\<open>update_user_stats\<close> returns the state untouched when the current user is unset (or
  empty); with a current user it rewrites exactly that user's aggregate: one more completed
  test, both totals increased, both bests raised to the maximum.
\<close>

theorem user_stats_only_for_current_user:
  "(current_user s = None \<and> \<not> truthy (username w) \<longrightarrow>
      user_data (complete_game s w) = user_data s \<and> current_user (complete_game s w) = None) \<and>
   (\<not> truthy (current_user s) \<longrightarrow> update_user_stats s wpm acc = s) \<and>
   (current_user s = Some u \<and> u \<noteq> [] \<longrightarrow>
      (\<exists>old new. old = (case user_data s u of None \<Rightarrow> new_user_stats | Some st \<Rightarrow> st) \<and>
         user_data (update_user_stats s wpm acc) = (user_data s)(u \<mapsto> new) \<and>
         tests_completed new = tests_completed old + 1 \<and>
         total_wpm new = total_wpm old + of_int wpm \<and>
         total_accuracy new = total_accuracy old + acc \<and>
         best_wpm new = max (best_wpm old) wpm \<and>
         best_accuracy new = max (best_accuracy old) acc))"
proof -
  have none: "current_user s = None \<and> \<not> truthy (username w) \<longrightarrow>
      user_data (complete_game s w) = user_data s \<and> current_user (complete_game s w) = None"
  proof (intro impI, elim conjE)
    assume "current_user s = None" and "\<not> truthy (username w)"
    then show "user_data (complete_game s w) = user_data s \<and>
        current_user (complete_game s w) = None"
      by (simp add: complete_game_def Let_def prompt_username_def truthy_def)
  qed
  have unset: "\<not> truthy (current_user s) \<longrightarrow> update_user_stats s wpm acc = s"
    by (simp add: update_user_stats_def)
  have some: "current_user s = Some u \<and> u \<noteq> [] \<longrightarrow>
      (\<exists>old new. old = (case user_data s u of None \<Rightarrow> new_user_stats | Some st \<Rightarrow> st) \<and>
         user_data (update_user_stats s wpm acc) = (user_data s)(u \<mapsto> new) \<and>
         tests_completed new = tests_completed old + 1 \<and>
         total_wpm new = total_wpm old + of_int wpm \<and>
         total_accuracy new = total_accuracy old + acc \<and>
         best_wpm new = max (best_wpm old) wpm \<and>
         best_accuracy new = max (best_accuracy old) acc)"
  proof (cases "user_data s u")
    case None
    then show ?thesis
      by (auto simp: update_user_stats_def truthy_def create_user_def new_user_stats_def
          Let_def dom_def max_def)
  next
    case (Some st)
    then show ?thesis
      by (auto simp: update_user_stats_def truthy_def create_user_def new_user_stats_def
          Let_def dom_def max_def)
  qed
  from none unset some show ?thesis by blast
qed

theorem user_stats_only_for_current_user_witness:
  "\<not> isl cat_typing \<and> current_user (projr cat_typing) = None \<and>
   \<not> truthy (username (world_at 130)) \<and>
   game_state (complete_game (projr cat_typing) (world_at 130)) = COMPLETE \<and>
   user_data (complete_game (projr cat_typing) (world_at 130)) = user_data (projr cat_typing) \<and>
   current_user (complete_game (projr cat_typing) (world_at 130)) = None \<and>
   update_user_stats (projr cat_typing) 40 90 = projr cat_typing \<and>
   current_user ann_session = Some ''ann'' \<and>
   (\<exists>new. user_data (update_user_stats ann_session 40 90) = (user_data ann_session)(''ann'' \<mapsto> new) \<and>
      tests_completed new = 1 \<and> total_wpm new = 40 \<and> total_accuracy new = 90 \<and>
      best_wpm new = 40 \<and> best_accuracy new = 90)"
proof -
  have ev: "\<not> isl cat_typing \<and> current_user (projr cat_typing) = None \<and>
      \<not> truthy (username (world_at 130)) \<and>
      game_state (complete_game (projr cat_typing) (world_at 130)) = COMPLETE"
    by (simp add: cat_typing_def session_defs)
  have ann: "current_user ann_session = Some ''ann'' \<and> user_data ann_session ''ann'' = None"
    by (simp add: ann_session_def init_game_def)
  from ev user_stats_only_for_current_user [of "projr cat_typing" "world_at 130" 40 90 "''ann''"]
  have a: "user_data (complete_game (projr cat_typing) (world_at 130)) =
        user_data (projr cat_typing) \<and>
      current_user (complete_game (projr cat_typing) (world_at 130)) = None \<and>
      update_user_stats (projr cat_typing) 40 90 = projr cat_typing"
    by (simp add: truthy_def)
  from ann user_stats_only_for_current_user [of ann_session "world_at 130" 40 90 "''ann''"]
  have b: "\<exists>new. user_data (update_user_stats ann_session 40 90) =
        (user_data ann_session)(''ann'' \<mapsto> new) \<and>
      tests_completed new = 1 \<and> total_wpm new = 40 \<and> total_accuracy new = 90 \<and>
      best_wpm new = 40 \<and> best_accuracy new = 90"
    by (auto simp: new_user_stats_def)
  from ev ann a b show ?thesis by blast
qed

end
